theory Spec2Isabelle
  imports Main "HOL-Library.AList"
begin

section \<open>JavaScript values and JSON documents\<close>

text \<open>
  The bot keeps its state in JSON files and passes plain object literals between its
  modules. A stored value is a \<open>json\<close>; an object is the list of its own properties in
  insertion order (the order \<open>Object.values\<close> enumerates). A JavaScript value that may
  be \<open>undefined\<close> is a \<open>json option\<close>, \<open>None\<close> standing for \<open>undefined\<close>; a property
  whose value is \<open>undefined\<close> is an absent property, which is also what
  \<open>JSON.stringify\<close> makes of it.

  Limits of the model, each of which the statements below carry as a hypothesis
  where it matters: numbers are integers and are added exactly (JavaScript adds
  doubles, exactly between \<open>-2^53\<close> and \<open>2^53\<close>); strings are byte strings and
  \<open>toLowerCase\<close> folds the ASCII letters (as JavaScript does on ASCII strings); a
  property read finds own properties only (JavaScript also finds the members every
  object inherits from \<open>Object.prototype\<close>, so keys are kept apart from those
  names). Arrays are left out. JavaScript enumerates keys that are array indices
  before the others; statements about a rewritten store are therefore about its
  mapping, not about the order of its keys.
\<close>

datatype json = JNull | JBool bool | JNum int | JStr string | JObj "(string \<times> json) list"

type_synonym obj = "(string \<times> json) list"

type_synonym jsval = "json option"

abbreviation str :: "string \<Rightarrow> jsval" where
  "str s \<equiv> Some (JStr s)"

fun truthy :: "json \<Rightarrow> bool" where
  "truthy JNull = False"
| "truthy (JBool b) = b"
| "truthy (JNum n) = (n \<noteq> 0)"
| "truthy (JStr s) = (s \<noteq> [])"
| "truthy (JObj ps) = True"

definition js_truthy :: "jsval \<Rightarrow> bool" where
  "js_truthy v = (case v of None \<Rightarrow> False | Some j \<Rightarrow> truthy j)"

text \<open>\<open>a || b\<close>, and the two shapes it takes when the last operand is a constant.\<close>

definition js_or :: "jsval \<Rightarrow> jsval \<Rightarrow> jsval" where
  "js_or a b = (if js_truthy a then a else b)"

definition or_else :: "jsval \<Rightarrow> json \<Rightarrow> json" where
  "or_else v d = (case v of None \<Rightarrow> d | Some j \<Rightarrow> if truthy j then j else d)"

definition or_null :: "jsval \<Rightarrow> json" where
  "or_null v = or_else v JNull"

text \<open>\<open>a ?? d\<close>.\<close>

definition nullish :: "jsval \<Rightarrow> json \<Rightarrow> json" where
  "nullish v d = (case v of None \<Rightarrow> d | Some JNull \<Rightarrow> d | Some j \<Rightarrow> j)"

text \<open>
  \<open>v.k\<close> on a value that is not \<open>null\<close> or \<open>undefined\<close>, and \<open>v?.k\<close> on any value:
  a primitive has no property of the names the bot reads.
\<close>

definition js_get :: "jsval \<Rightarrow> string \<Rightarrow> jsval" where
  "js_get v k = (case v of Some (JObj ps) \<Rightarrow> map_of ps k | _ \<Rightarrow> None)"

text \<open>A property of an object literal; \<open>undefined\<close> leaves none.\<close>

definition js_field :: "string \<Rightarrow> jsval \<Rightarrow> obj" where
  "js_field k v = (case v of None \<Rightarrow> [] | Some j \<Rightarrow> [(k, j)])"

subsection \<open>Strings\<close>

definition lower_char :: "char \<Rightarrow> char" where
  "lower_char c =
     (if (65::nat) \<le> of_char c \<and> of_char c \<le> (90::nat)
      then char_of (of_char c + (32::nat)) else c)"

definition toLowerCase :: "string \<Rightarrow> string" where
  "toLowerCase s = map lower_char s"

fun show_nat :: "nat \<Rightarrow> string" where
  "show_nat n =
     (if n < 10 then [char_of (48 + n)]
      else show_nat (n div 10) @ [char_of (48 + n mod 10)])"

definition show_int :: "int \<Rightarrow> string" where
  "show_int i = (if i < 0 then CHR ''-'' # show_nat (nat (- i)) else show_nat (nat i))"

text \<open>\<open>String(v)\<close>, which is also how a value is turned into a property key.\<close>

fun js_string :: "json \<Rightarrow> string" where
  "js_string JNull = ''null''"
| "js_string (JBool b) = (if b then ''true'' else ''false'')"
| "js_string (JNum n) = show_int n"
| "js_string (JStr s) = s"
| "js_string (JObj ps) = ''[object Object]''"

definition to_key :: "jsval \<Rightarrow> string" where
  "to_key v = (case v of None \<Rightarrow> ''undefined'' | Some j \<Rightarrow> js_string j)"

subsection \<open>Files\<close>

text \<open>
  What the code can observe of a file: it is missing (\<open>None\<close>), or it holds text that
  is blank, text that \<open>JSON.parse\<close> rejects, or the text of a JSON object. Writing
  \<open>JSON.stringify(data, null, 2)\<close> leaves the text of \<open>data\<close>. Writes are taken to
  succeed: a full disk is outside the model.
\<close>

datatype content = Blank | Garbage | Doc obj

type_synonym jfile = "content option"

datatype exn = ENOENT | SyntaxError | TypeError

fun message :: "exn \<Rightarrow> string" where
  "message ENOENT = ''ENOENT: no such file or directory''"
| "message SyntaxError = ''Unexpected token in JSON''"
| "message TypeError = ''Cannot read properties of undefined''"

definition existsSync :: "jfile \<Rightarrow> bool" where
  "existsSync f = (f \<noteq> None)"

definition readFileSync :: "jfile \<Rightarrow> exn + content" where
  "readFileSync f = (case f of None \<Rightarrow> Inl ENOENT | Some raw \<Rightarrow> Inr raw)"

definition JSON_parse :: "content \<Rightarrow> exn + obj" where
  "JSON_parse raw = (case raw of Doc d \<Rightarrow> Inr d | _ \<Rightarrow> Inl SyntaxError)"

definition writeFileSync :: "obj \<Rightarrow> jfile" where
  "writeFileSync d = Some (Doc d)"

text \<open>The five documents under \<open>modules/data\<close>.\<close>

record fs =
  linking_json :: jfile
  applicants_json :: jfile
  members_json :: jfile
  clans_json :: jfile
  cache_json :: jfile

section \<open>modules/applications/applicants.js\<close>

text \<open>Run once when the module is first required.\<close>

definition applicants_init :: "jfile \<Rightarrow> jfile" where
  "applicants_init f = (if \<not> existsSync f then writeFileSync [] else f)"

definition loadApplicants_try :: "jfile \<Rightarrow> exn + obj" where
  "loadApplicants_try f =
     (case readFileSync f of
        Inl e \<Rightarrow> Inl e
      | Inr raw \<Rightarrow> if raw \<noteq> Blank then JSON_parse raw else Inr [])"

text \<open>The loader returns the file as well: it never writes.\<close>

definition loadApplicants :: "jfile \<Rightarrow> obj \<times> jfile" where
  "loadApplicants f = (case loadApplicants_try f of Inl e \<Rightarrow> ([], f) | Inr d \<Rightarrow> (d, f))"

definition saveApplicants :: "obj \<Rightarrow> jfile" where
  "saveApplicants d = writeFileSync d"

definition getApplicant :: "fs \<Rightarrow> jsval \<Rightarrow> json" where
  "getApplicant s discordId =
     or_null (map_of (fst (loadApplicants (applicants_json s))) (to_key discordId))"

definition getAllApplicants :: "fs \<Rightarrow> obj" where
  "getAllApplicants s = fst (loadApplicants (applicants_json s))"

text \<open>
  \<open>saveApplicant(discordId, applicantData, serverId, closeReason, accepted, closedAt)\<close>;
  a caller that leaves the last four out passes their defaults \<open>null\<close>, \<open>null\<close>,
  \<open>false\<close>, \<open>null\<close>. \<open>applicantData\<close> is an object literal at every call.
  \<open>now\<close> is what \<open>new Date().toISOString()\<close> returns. \<open>applicantRecord\<close> is the
  object literal assigned to \<open>data[discordId]\<close>.
\<close>

definition applicantRecord ::
  "string \<Rightarrow> jsval \<Rightarrow> obj \<Rightarrow> jsval \<Rightarrow> jsval \<Rightarrow> jsval \<Rightarrow> jsval \<Rightarrow> obj" where
  "applicantRecord now discordId applicantData serverId closeReason accepted closedAt =
     (let mcOriginal =
            or_else (js_or (map_of applicantData ''minecraftUser'')
                           (map_of applicantData ''minecraftName'')) (JStr []);
          mcKey = (if truthy mcOriginal then toLowerCase (js_string mcOriginal) else [])
      in js_field ''discordId'' discordId @
         [(''discordUser'',
             or_null (js_or (map_of applicantData ''discordUser'')
                            (map_of applicantData ''discordTag''))),
          (''minecraftUser'', or_null (Some mcOriginal)),
          (''minecraftUserKey'', or_null (str mcKey)),
          (''minecraftVersion'', nullish (map_of applicantData ''minecraftVersion'') JNull),
          (''timezone'', or_null (map_of applicantData ''timezone'')),
          (''previousGroups'', or_null (map_of applicantData ''previousGroups'')),
          (''reason'', or_null (map_of applicantData ''reason'')),
          (''openedAt'', or_else (map_of applicantData ''openedAt'') (JStr now)),
          (''server'', or_null (js_or serverId (map_of applicantData ''server''))),
          (''accepted'', JBool (js_truthy accepted)),
          (''closeReason'', or_null (js_or closeReason (map_of applicantData ''closeReason''))),
          (''closedAt'', or_null (js_or closedAt (map_of applicantData ''closedAt'')))])"

definition saveApplicant ::
  "string \<Rightarrow> fs \<Rightarrow> jsval \<Rightarrow> obj \<Rightarrow> jsval \<Rightarrow> jsval \<Rightarrow> jsval \<Rightarrow> jsval \<Rightarrow> json \<times> fs" where
  "saveApplicant now s discordId applicantData serverId closeReason accepted closedAt =
     (let data = fst (loadApplicants (applicants_json s));
          entry = JObj (applicantRecord now discordId applicantData serverId closeReason
                          accepted closedAt);
          data' = AList.update (to_key discordId) entry data
      in (entry, s\<lparr>applicants_json := saveApplicants data'\<rparr>))"

section \<open>modules/linking/linklogic.js\<close>

definition ensureDataFile_try :: "jfile \<Rightarrow> exn + obj \<times> jfile" where
  "ensureDataFile_try f =
     (if \<not> existsSync f then Inr ([], writeFileSync [])
      else case readFileSync f of
        Inl e \<Rightarrow> Inl e
      | Inr raw \<Rightarrow>
          if raw = Blank then Inr ([], writeFileSync [])
          else (case JSON_parse raw of Inl e \<Rightarrow> Inl e | Inr d \<Rightarrow> Inr (d, f)))"

definition ensureDataFile :: "jfile \<Rightarrow> obj \<times> jfile" where
  "ensureDataFile f =
     (case ensureDataFile_try f of Inl e \<Rightarrow> ([], writeFileSync []) | Inr r \<Rightarrow> r)"

definition saveData :: "obj \<Rightarrow> jfile" where
  "saveData d = writeFileSync d"

text \<open>
  The callback of both scans, \<open>v.minecraftUser.toLowerCase()\<close>: a \<open>TypeError\<close> unless
  \<open>v\<close> is an object whose \<open>minecraftUser\<close> is a string.
\<close>

definition minecraftUser_key :: "json \<Rightarrow> exn + string" where
  "minecraftUser_key v =
     (case js_get (Some v) ''minecraftUser'' of
        Some (JStr u) \<Rightarrow> Inr (toLowerCase u)
      | _ \<Rightarrow> Inl TypeError)"

text \<open>\<open>Object.values(data).some(...)\<close> stops at the first match, or at the first throw.\<close>

fun usernameTaken :: "string \<Rightarrow> json list \<Rightarrow> exn + bool" where
  "usernameTaken mcKey [] = Inr False"
| "usernameTaken mcKey (v # vs) =
     (case minecraftUser_key v of
        Inl e \<Rightarrow> Inl e
      | Inr k \<Rightarrow> if k = mcKey then Inr True else usernameTaken mcKey vs)"

text \<open>\<open>Object.values(data).find(...)\<close>.\<close>

fun find_entry :: "string \<Rightarrow> json list \<Rightarrow> exn + jsval" where
  "find_entry mcKey [] = Inr None"
| "find_entry mcKey (v # vs) =
     (case minecraftUser_key v of
        Inl e \<Rightarrow> Inl e
      | Inr k \<Rightarrow> if k = mcKey then Inr (Some v) else find_entry mcKey vs)"

definition failure :: "string \<Rightarrow> obj \<Rightarrow> json" where
  "failure reason rest = JObj ([(''success'', JBool False), (''reason'', JStr reason)] @ rest)"

text \<open>
  \<open>linkMember(discordId, mcName)\<close>. The result is the object returned, or the
  exception thrown (the function catches none), with the files as they are left.
  \<open>linkMember_from\<close> is the function from \<open>const mcKey = mcName.toLowerCase()\<close> on,
  where \<open>mcName\<close> is truthy: the argument, or the applicant's \<open>minecraftName\<close>.
\<close>

definition linkMember_from :: "fs \<Rightarrow> obj \<Rightarrow> jsval \<Rightarrow> jsval \<Rightarrow> (exn + json) \<times> fs" where
  "linkMember_from s1 data discordId mcName =
     (case mcName of
        Some (JStr name) \<Rightarrow>
          (let mcKey = toLowerCase name;
               existingDiscord = map_of data (to_key discordId)
           in if js_truthy existingDiscord
              then (Inr (failure ''already_linked''
                      [(''details'', JObj (js_field ''discordId'' discordId @
                          js_field ''minecraftUser''
                            (js_get existingDiscord ''minecraftUser'')))]), s1)
              else
                (case usernameTaken mcKey (map snd data) of
                   Inl e \<Rightarrow> (Inl e, s1)
                 | Inr taken \<Rightarrow>
                     if taken
                     then (Inr (failure ''username_used''
                             [(''details'', JObj [(''minecraftUser'', JStr name)])]), s1)
                     else
                       (let data' = AList.update (to_key discordId)
                              (JObj (js_field ''discordId'' discordId @
                                     [(''minecraftUser'', JStr name)])) data
                        in (Inr (JObj ([(''success'', JBool True)] @
                                   js_field ''discordId'' discordId @
                                   [(''minecraftUser'', JStr name)])),
                            s1\<lparr>linking_json := saveData data'\<rparr>))))
      | _ \<Rightarrow> (Inl TypeError, s1))"

definition linkMember :: "fs \<Rightarrow> jsval \<Rightarrow> jsval \<Rightarrow> (exn + json) \<times> fs" where
  "linkMember s discordId mcName =
     (let (data, lf) = ensureDataFile (linking_json s);
          s1 = s\<lparr>linking_json := lf\<rparr>
      in if \<not> js_truthy discordId then (Inr (failure ''invalid_arguments'' []), s1)
         else if \<not> js_truthy mcName
         then (let app = getApplicant s1 discordId
               in if truthy app \<and> js_truthy (js_get (Some app) ''minecraftName'')
                  then linkMember_from s1 data discordId (js_get (Some app) ''minecraftName'')
                  else (Inr (failure ''no_mcname_provided'' []), s1))
         else linkMember_from s1 data discordId mcName)"

definition getMCFromDiscord :: "fs \<Rightarrow> jsval \<Rightarrow> json \<times> fs" where
  "getMCFromDiscord s discordId =
     (let (data, lf) = ensureDataFile (linking_json s)
      in (or_null (js_get (map_of data (to_key discordId)) ''minecraftUser''),
          s\<lparr>linking_json := lf\<rparr>))"

definition getDiscordFromMC :: "fs \<Rightarrow> jsval \<Rightarrow> (exn + json) \<times> fs" where
  "getDiscordFromMC s mcName =
     (if \<not> js_truthy mcName then (Inr JNull, s)
      else
        let (data, lf) = ensureDataFile (linking_json s);
            s1 = s\<lparr>linking_json := lf\<rparr>
        in (case mcName of
              Some (JStr name) \<Rightarrow>
                (case find_entry (toLowerCase name) (map snd data) of
                   Inl e \<Rightarrow> (Inl e, s1)
                 | Inr entry \<Rightarrow> (Inr (or_null (js_get entry ''discordId'')), s1))
            | _ \<Rightarrow> (Inl TypeError, s1)))"

section \<open>modules/linking/autolink.js\<close>

text \<open>
  The body of the timer callback of \<open>processApplicant\<close>; the promise resolves with
  the object returned. Everything runs inside one \<open>try\<close>, so nothing is thrown.
\<close>

definition processApplicant :: "fs \<Rightarrow> jsval \<Rightarrow> json \<times> fs" where
  "processApplicant s discordId =
     (let applicant = getApplicant s discordId
      in if \<not> (truthy applicant \<and> js_truthy (js_get (Some applicant) ''minecraftName''))
         then (failure ''no_applicant_or_no_mc'' (js_field ''discordId'' discordId), s)
         else
           let mcName = js_get (Some applicant) ''minecraftName''
           in (case linkMember s discordId mcName of
                 (Inr result, s') \<Rightarrow> (result, s')
               | (Inl err, s') \<Rightarrow>
                   (failure ''exception''
                      ([(''error'', JStr (message err))] @ js_field ''discordId'' discordId), s')))"

section \<open>modules/clantracking/clanlogic.js\<close>

definition clan_ensureDataFile :: "jfile \<Rightarrow> jfile" where
  "clan_ensureDataFile f = (if \<not> existsSync f then writeFileSync [] else f)"

definition readClans_try :: "jfile \<Rightarrow> exn + obj \<times> jfile" where
  "readClans_try f =
     (case readFileSync f of
        Inl e \<Rightarrow> Inl e
      | Inr raw \<Rightarrow>
          if raw = Blank then Inr ([], writeFileSync [])
          else (case JSON_parse raw of Inl e \<Rightarrow> Inl e | Inr d \<Rightarrow> Inr (d, f)))"

definition readClans :: "jfile \<Rightarrow> obj \<times> jfile" where
  "readClans f =
     (let f1 = clan_ensureDataFile f
      in case readClans_try f1 of Inl e \<Rightarrow> ([], writeFileSync []) | Inr r \<Rightarrow> r)"

definition writeClans :: "obj \<Rightarrow> jfile" where
  "writeClans d = writeFileSync d"

section \<open>modules/applications/acceptedapplicants.js\<close>

definition loadJSON_try :: "jfile \<Rightarrow> exn + obj" where
  "loadJSON_try f =
     (case readFileSync f of
        Inl e \<Rightarrow> Inl e
      | Inr raw \<Rightarrow> if raw \<noteq> Blank then JSON_parse raw else Inr [])"

definition loadJSON :: "jfile \<Rightarrow> obj \<times> jfile" where
  "loadJSON f =
     (if \<not> existsSync f then ([], f)
      else case loadJSON_try f of Inl e \<Rightarrow> ([], f) | Inr d \<Rightarrow> (d, f))"

definition saveJSON :: "obj \<Rightarrow> jfile" where
  "saveJSON d = writeFileSync d"

text \<open>
  An instant, with what \<open>toISOString\<close> and the local-time getters return for it.
\<close>

record date =
  toISOString :: string
  getDate :: nat
  getMonth :: nat
  getFullYear :: nat

definition padStart2 :: "string \<Rightarrow> string" where
  "padStart2 t = replicate (2 - length t) (CHR ''0'') @ t"

definition formatDate :: "date \<Rightarrow> string" where
  "formatDate d =
     padStart2 (show_nat (getDate d)) @ ''.'' @ padStart2 (show_nat (getMonth d + 1)) @ ''.'' @
     show_nat (getFullYear d)"

text \<open>
  \<open>acceptApplicant(discordId)\<close> at the instant \<open>now\<close>; it returns nothing.
  \<open>memberEntry\<close> is the object literal \<open>entry\<close>, built from the applicant's record
  \<open>data\<close> and the clans.
\<close>

definition memberEntry :: "date \<Rightarrow> jsval \<Rightarrow> jsval \<Rightarrow> obj \<Rightarrow> json" where
  "memberEntry now discordId data clans =
     (let discordUser = or_else (js_get data ''discordUser'') (JStr []);
          minecraftUser = or_else (js_get data ''minecraftUser'') (JStr []);
          minecraftVersion = or_else (js_get data ''minecraftVersion'') (JStr []);
          closeDate = formatDate now;
          clanName = or_else (js_get (map_of clans (to_key (js_get data ''server''))) ''name'')
                       (JStr ''Unknown'')
      in JObj (js_field ''discordId'' discordId @
               [(''discordUser'', discordUser),
                (''minecraftUser'', minecraftUser),
                (''minecraftVersion'', minecraftVersion),
                (''JoinedClan'', clanName),
                (''JoinDate'', JStr closeDate),
                (''YazanakiRank'', JStr []),
                (''EmpireID'', JStr []),
                (''Status'', JStr [])]))"

definition acceptApplicant :: "date \<Rightarrow> fs \<Rightarrow> jsval \<Rightarrow> fs" where
  "acceptApplicant now s discordId =
     (let applicants = fst (loadJSON (applicants_json s));
          members = fst (loadJSON (members_json s));
          clans = fst (loadJSON (clans_json s));
          data = map_of applicants (to_key discordId)
      in if \<not> js_truthy data then s
         else if \<not> js_truthy (js_get data ''accepted'') then s
         else
           let entry = memberEntry now discordId data clans
           in s\<lparr>members_json := saveJSON (AList.update (to_key discordId) entry members)\<rparr>)"

section \<open>modules/membertracking/memberlogic.js\<close>

definition readMembers_try :: "jfile \<Rightarrow> exn + obj" where
  "readMembers_try f =
     (if \<not> existsSync f then Inr []
      else case readFileSync f of
        Inl e \<Rightarrow> Inl e
      | Inr raw \<Rightarrow> if raw = Blank then Inr [] else JSON_parse raw)"

definition readMembers :: "jfile \<Rightarrow> obj \<times> jfile" where
  "readMembers f = (case readMembers_try f of Inl e \<Rightarrow> ([], f) | Inr d \<Rightarrow> (d, f))"

definition getMemberByDiscordId :: "fs \<Rightarrow> jsval \<Rightarrow> json" where
  "getMemberByDiscordId s discordId =
     or_null (map_of (fst (readMembers (members_json s))) (to_key discordId))"

definition isUnlinked :: "fs \<Rightarrow> jsval \<Rightarrow> bool \<times> fs" where
  "isUnlinked s discordId =
     (let m = getMemberByDiscordId s discordId
      in if truthy m then (False, s)
         else let (linkedMC, s') = getMCFromDiscord s discordId
              in (\<not> truthy linkedMC, s'))"

section \<open>modules/data/cache.js\<close>

text \<open>\<open>readCache\<close> catches nothing: a missing or unreadable \<open>cache.json\<close> throws.\<close>

definition readCache :: "jfile \<Rightarrow> exn + obj" where
  "readCache f = (case readFileSync f of Inl e \<Rightarrow> Inl e | Inr raw \<Rightarrow> JSON_parse raw)"

definition writeCache :: "obj \<Rightarrow> jfile" where
  "writeCache d = writeFileSync d"

definition cache_get :: "fs \<Rightarrow> string \<Rightarrow> (exn + json) \<times> fs" where
  "cache_get s channelId =
     (case readCache (cache_json s) of
        Inl e \<Rightarrow> (Inl e, s)
      | Inr cache \<Rightarrow> (Inr (or_null (map_of cache channelId)), s))"

definition cache_set :: "fs \<Rightarrow> string \<Rightarrow> json \<Rightarrow> (exn + unit) \<times> fs" where
  "cache_set s channelId data =
     (case readCache (cache_json s) of
        Inl e \<Rightarrow> (Inl e, s)
      | Inr cache \<Rightarrow>
          (Inr (), s\<lparr>cache_json := writeCache (AList.update channelId data cache)\<rparr>))"

definition cache_delete :: "fs \<Rightarrow> string \<Rightarrow> (exn + unit) \<times> fs" where
  "cache_delete s channelId =
     (case readCache (cache_json s) of
        Inl e \<Rightarrow> (Inl e, s)
      | Inr cache \<Rightarrow> (Inr (), s\<lparr>cache_json := writeCache (AList.delete channelId cache)\<rparr>))"

text \<open>\<open>x + 1\<close>: addition on a number, on \<open>null\<close> and on a boolean, concatenation otherwise.\<close>

fun plus_one :: "json \<Rightarrow> json" where
  "plus_one (JNum n) = JNum (n + 1)"
| "plus_one JNull = JNum 1"
| "plus_one (JBool b) = JNum (if b then 2 else 1)"
| "plus_one (JStr t) = JStr (t @ ''1'')"
| "plus_one (JObj ps) = JStr ''[object Object]1''"

text \<open>
  \<open>getNextNumber(type)\<close>. An assignment to a property of a primitive is dropped
  (the module is not in strict mode), and the property then reads \<open>undefined\<close>.
\<close>

definition getNextNumber :: "fs \<Rightarrow> string \<Rightarrow> (exn + jsval) \<times> fs" where
  "getNextNumber s type =
     (case readCache (cache_json s) of
        Inl e \<Rightarrow> (Inl e, s)
      | Inr cache \<Rightarrow>
          let cache1 = (if \<not> js_truthy (map_of cache ''__counters'')
                        then AList.update ''__counters''
                               (JObj [(''application'', JNum 0), (''normal'', JNum 0)]) cache
                        else cache)
          in (case map_of cache1 ''__counters'' of
                Some (JObj counters) \<Rightarrow>
                  let v = plus_one (or_else (map_of counters type) (JNum 0));
                      cache2 = AList.update ''__counters''
                                 (JObj (AList.update type v counters)) cache1
                  in (Inr (Some v), s\<lparr>cache_json := writeCache cache2\<rparr>)
              | _ \<Rightarrow> (Inr None, s\<lparr>cache_json := writeCache cache1\<rparr>)))"

section \<open>modules/applications/application.js\<close>

text \<open>
  What a handler reads from the interaction: the fields of the submitted modal, the
  submitting user, the guild, and what the Discord client answers (whether the
  category or the channel is found, the id of the channel it creates).
\<close>

record application_modal =
  user_id :: string
  user_tag :: string
  guild_id :: string
  minecraft_name :: string
  minecraft_version :: string
  time_zone :: string
  previous_groups :: string
  why :: string
  category_found :: bool
  created_channel_id :: string

record close_reason_modal =
  closer_tag :: string
  closer_guild_id :: string
  close_reason :: string
  ticket_channel :: string
  channel_found :: bool

datatype reply = CategoryNotFound | ApplicationCreated | ChannelNotFound | TicketClosed

text \<open>\<open>o[k] = v\<close> on an object literal under construction.\<close>

definition js_assign :: "string \<Rightarrow> jsval \<Rightarrow> obj \<Rightarrow> obj" where
  "js_assign k v ps = (case v of None \<Rightarrow> AList.delete k ps | Some j \<Rightarrow> AList.update k j ps)"

text \<open>\<open>{...v}\<close>: the own properties of an object, none of a primitive.\<close>

definition spread :: "json \<Rightarrow> obj" where
  "spread v = (case v of JObj ps \<Rightarrow> ps | _ \<Rightarrow> [])"

text \<open>
  The branch of \<open>modalHandler\<close> for \<open>application_modal_...\<close> (the Open transition), up
  to \<open>cache.set\<close>; the messages sent afterwards touch no store. Besides the reply
  and the files it returns the identities for which \<open>setTimeout\<close> has scheduled
  \<open>autolink.processApplicant\<close>.
\<close>

definition modalHandler_application ::
  "string \<Rightarrow> fs \<Rightarrow> application_modal \<Rightarrow> (exn + reply) \<times> jsval list \<times> fs" where
  "modalHandler_application now s i =
     (if \<not> category_found i then (Inr CategoryNotFound, [], s)
      else case getNextNumber s ''application'' of
        (Inl e, s1) \<Rightarrow> (Inl e, [], s1)
      | (Inr ticketNumber, s1) \<Rightarrow>
          let (saved, s2) =
                saveApplicant now s1 (str (user_id i))
                  ([(''discordId'', JStr (user_id i)),
                    (''discordUser'', JStr (user_tag i)),
                    (''minecraftUser'', JStr (minecraft_name i)),
                    (''ticketChannel'', JStr (created_channel_id i))] @
                   js_field ''ticketNumber'' ticketNumber @
                   [(''minecraftVersion'', JStr (minecraft_version i)),
                    (''timezone'', JStr (time_zone i)),
                    (''previousGroups'', JStr (previous_groups i)),
                    (''reason'', JStr (why i)),
                    (''server'', JStr (guild_id i)),
                    (''accepted'', JBool False),
                    (''closeReason'', JNull),
                    (''closedAt'', JNull)])
                  (Some JNull) (Some JNull) (Some (JBool False)) (Some JNull);
              scheduled = [str (user_id i)]
          in (case cache_set s2 (created_channel_id i)
                     (JObj ([(''type'', JStr ''application''),
                             (''openerId'', JStr (user_id i)),
                             (''openerTag'', JStr (user_tag i))] @
                            js_field ''ticketNumber'' ticketNumber @
                            [(''openedAt'', JStr now)])) of
                (Inl e, s3) \<Rightarrow> (Inl e, scheduled, s3)
              | (Inr u, s3) \<Rightarrow> (Inr ApplicationCreated, scheduled, s3)))"

text \<open>
  The branch of \<open>modalHandler\<close> for \<open>close_reason_modal_...\<close> (the Close transition),
  up to the call of \<open>transcript.generate\<close>.
\<close>

definition modalHandler_close_reason ::
  "string \<Rightarrow> fs \<Rightarrow> close_reason_modal \<Rightarrow> (exn + reply) \<times> fs" where
  "modalHandler_close_reason now s i =
     (if \<not> channel_found i then (Inr ChannelNotFound, s)
      else case cache_get s (ticket_channel i) of
        (Inl e, s1) \<Rightarrow> (Inl e, s1)
      | (Inr ticketData, s1) \<Rightarrow>
          if truthy ticketData
          then
            (let openerId = js_get (Some ticketData) ''openerId'';
                 applicantData = getApplicant s1 openerId
             in if truthy applicantData
                then
                  (let mcUser = or_else (js_or (js_get (Some applicantData) ''minecraftUser'')
                                               (js_get (Some applicantData) ''minecraftName''))
                                  (JStr [])
                   in (Inr TicketClosed,
                       snd (saveApplicant now s1 openerId
                              (js_assign ''minecraftUser'' (Some mcUser)
                                (js_assign ''discordUser'' (str (closer_tag i))
                                  (js_assign ''discordId'' openerId
                                    (spread applicantData))))
                              (str (closer_guild_id i))
                              (str (close_reason i))
                              (Some (nullish (js_get (Some applicantData) ''accepted'')
                                       (JBool False)))
                              (str now))))
                else (Inr TicketClosed, s1))
          else (Inr TicketClosed, s1))"

section \<open>Notions used in the statements\<close>

subsection \<open>Inputs on which model and JavaScript agree\<close>

text \<open>
  The names of the members of \<open>Object.prototype\<close>: read as a key of a parsed
  document, such a name finds the inherited member when the document has no own
  property of that name.
\<close>

definition inherited :: "string \<Rightarrow> bool" where
  "inherited k =
     (k \<in> set [''constructor'', ''__proto__'', ''hasOwnProperty'', ''isPrototypeOf'',
                ''propertyIsEnumerable'', ''toLocaleString'', ''toString'', ''valueOf'',
                ''__defineGetter__'', ''__defineSetter__'', ''__lookupGetter__'',
                ''__lookupSetter__''])"

text \<open>Strings of ASCII characters, as Minecraft usernames are.\<close>

definition ascii_string :: "string \<Rightarrow> bool" where
  "ascii_string t = list_all (\<lambda>c. of_char c < (128::nat)) t"

text \<open>\<open>Number.isSafeInteger\<close>: adding 1 to such a number is exact.\<close>

definition safe_integer :: "int \<Rightarrow> bool" where
  "safe_integer n = (- 9007199254740992 < n \<and> n < 9007199254740992)"

text \<open>The mapping a file holds: empty unless the file is the text of an object.\<close>

definition doc_of :: "jfile \<Rightarrow> obj" where
  "doc_of f = (case f of Some (Doc d) \<Rightarrow> d | _ \<Rightarrow> [])"

text \<open>
  Example: \<open>members.json\<close> holds a record for identity 100000000000000001 and
  \<open>linking.json\<close> links identity 200000000000000002.
\<close>

definition registry :: fs where
  "registry =
     \<lparr>linking_json = Some (Doc
        [(''200000000000000002'', JObj [(''discordId'', JStr ''200000000000000002''),
                                        (''minecraftUser'', JStr ''Alex'')])]),
      applicants_json = Some (Doc []),
      members_json = Some (Doc
        [(''100000000000000001'', JObj [(''discordId'', JStr ''100000000000000001''),
                                        (''minecraftUser'', JStr ''Steve''),
                                        (''JoinedClan'', JStr ''Yazanaki'')])]),
      clans_json = None,
      cache_json = Some (Doc [])\<rparr>"

subsection \<open>Ticket counters\<close>

text \<open>
  The document of \<open>cache.json\<close>, the counter of a ticket type as stored in it (0 when
  the type has none yet), and the shape \<open>getNextNumber\<close> keeps: no counters yet, or
  an object of numbers.
\<close>

definition cache_doc :: "fs \<Rightarrow> obj" where
  "cache_doc s = (case cache_json s of Some (Doc cache) \<Rightarrow> cache | _ \<Rightarrow> [])"

definition counter_of :: "obj \<Rightarrow> string \<Rightarrow> int" where
  "counter_of cache type =
     (case js_get (map_of cache ''__counters'') type of Some (JNum n) \<Rightarrow> n | _ \<Rightarrow> 0)"

definition is_number :: "json \<Rightarrow> bool" where
  "is_number v = (case v of JNum n \<Rightarrow> True | _ \<Rightarrow> False)"

definition counters_ok :: "obj \<Rightarrow> bool" where
  "counters_ok cache =
     (case map_of cache ''__counters'' of
        None \<Rightarrow> True
      | Some (JObj counters) \<Rightarrow> list_all is_number (map snd counters)
      | Some v \<Rightarrow> \<not> truthy v)"

text \<open>
  Sequences of calls of the cache operations. A call is a session's when it is
  \<open>getNextNumber\<close> of a ticket type, or \<open>set\<close> or \<open>delete\<close> of a key other than
  \<open>__counters\<close>; neither a ticket type nor a session key is the name of a member
  of \<open>Object.prototype\<close>.
  \<open>issued type s ops\<close> lists what the calls of \<open>getNextNumber(type)\<close> among \<open>ops\<close>
  return, run in order from \<open>s\<close>.
\<close>

datatype cache_op = GetNextNumber string | Set string json | Delete string

fun session_op :: "cache_op \<Rightarrow> bool" where
  "session_op (GetNextNumber type) = (\<not> inherited type)"
| "session_op (Set k data) = (k \<noteq> ''__counters'' \<and> \<not> inherited k)"
| "session_op (Delete k) = (k \<noteq> ''__counters'' \<and> \<not> inherited k)"

fun cache_step :: "fs \<Rightarrow> cache_op \<Rightarrow> (exn + jsval) \<times> fs" where
  "cache_step s (GetNextNumber type) = getNextNumber s type"
| "cache_step s (Set k data) = (Inr None, snd (cache_set s k data))"
| "cache_step s (Delete k) = (Inr None, snd (cache_delete s k))"

fun issued :: "string \<Rightarrow> fs \<Rightarrow> cache_op list \<Rightarrow> (exn + jsval) list" where
  "issued type s [] = []"
| "issued type s (op # ops) =
     (if op = GetNextNumber type then [fst (cache_step s op)] else []) @
     issued type (snd (cache_step s op)) ops"

text \<open>Example states: a fresh installation, and a cache that has issued three tickets.\<close>

definition fresh :: fs where
  "fresh = \<lparr>linking_json = None, applicants_json = Some (Doc []), members_json = Some (Doc []),
             clans_json = None, cache_json = Some (Doc [])\<rparr>"

definition ticket :: "string \<Rightarrow> int \<Rightarrow> json" where
  "ticket openerId n =
     JObj [(''type'', JStr ''application''), (''openerId'', JStr openerId),
           (''openerTag'', JStr ''applicant#0001''), (''ticketNumber'', JNum n),
           (''openedAt'', JStr ''2025-01-01T00:00:00.000Z'')]"

definition open_three_close_two_open_one :: "cache_op list" where
  "open_three_close_two_open_one =
     [GetNextNumber ''application'', Set ''901'' (ticket ''11'' 1),
      GetNextNumber ''application'', Set ''902'' (ticket ''12'' 2),
      GetNextNumber ''application'', Set ''903'' (ticket ''13'' 3),
      Delete ''901'', Delete ''902'',
      GetNextNumber ''application'', Set ''904'' (ticket ''14'' 4)]"

definition busy :: fs where
  "busy = fresh\<lparr>cache_json := Some (Doc
     [(''__counters'', JObj [(''application'', JNum 3), (''normal'', JNum 0)]),
      (''903'', ticket ''13'' 3)])\<rparr>"

subsection \<open>Promotion\<close>

text \<open>
  Example: two days of promotion, three applicants, one clan, and a member record
  edited by hand.
\<close>

definition promotion_day :: date where
  "promotion_day = \<lparr>toISOString = ''2025-03-09T10:00:00.000Z'', getDate = 9, getMonth = 2,
                     getFullYear = 2025\<rparr>"

definition christmas_day :: date where
  "christmas_day = \<lparr>toISOString = ''2031-12-25T20:15:00.000Z'', getDate = 25, getMonth = 11,
                     getFullYear = 2031\<rparr>"

definition steve_accepted :: json where
  "steve_accepted =
     JObj [(''discordId'', JStr ''100''), (''discordUser'', JStr ''steve#0001''),
           (''minecraftUser'', JStr ''Steve''), (''minecraftUserKey'', JStr ''steve''),
           (''minecraftVersion'', JStr ''Java''), (''timezone'', JStr ''GMT''),
           (''previousGroups'', JStr ''none''), (''reason'', JStr ''friends''),
           (''openedAt'', JStr ''2025-03-01T09:00:00.000Z''), (''server'', JStr ''7''),
           (''accepted'', JBool True), (''closeReason'', JNull),
           (''closedAt'', JStr ''2025-03-08T09:00:00.000Z'')]"

definition alex_pending :: json where
  "alex_pending =
     JObj [(''discordId'', JStr ''200''), (''discordUser'', JStr ''alex#0002''),
           (''minecraftUser'', JStr ''Alex''), (''minecraftUserKey'', JStr ''alex''),
           (''minecraftVersion'', JStr ''Bedrock''), (''timezone'', JNull),
           (''previousGroups'', JNull), (''reason'', JNull),
           (''openedAt'', JStr ''2025-03-02T09:00:00.000Z''), (''server'', JStr ''8''),
           (''accepted'', JBool False), (''closeReason'', JNull), (''closedAt'', JNull)]"

definition sam_accepted :: json where
  "sam_accepted =
     JObj [(''discordId'', JStr ''400''), (''discordUser'', JStr ''sam#0004''),
           (''minecraftUser'', JStr ''Sam''), (''minecraftUserKey'', JStr ''sam''),
           (''minecraftVersion'', JStr ''Java''), (''timezone'', JNull),
           (''previousGroups'', JNull), (''reason'', JNull),
           (''openedAt'', JStr ''2025-03-03T09:00:00.000Z''), (''server'', JStr ''9''),
           (''accepted'', JBool True), (''closeReason'', JNull),
           (''closedAt'', JStr ''2025-03-08T10:00:00.000Z'')]"

definition roster :: fs where
  "roster =
     \<lparr>linking_json = None,
      applicants_json = Some (Doc [(''100'', steve_accepted), (''200'', alex_pending),
                                  (''400'', sam_accepted)]),
      members_json = Some (Doc [(''100'', JObj [(''discordId'', JStr ''100''),
                                  (''JoinedClan'', JStr ''Old Clan''),
                                  (''YazanakiRank'', JStr ''Officer'')])]),
      clans_json = Some (Doc [(''7'', JObj [(''abbr'', JStr ''YAZ''), (''name'', JStr ''Yazanaki'')])]),
      cache_json = Some (Doc [])\<rparr>"

subsection \<open>Applicant records\<close>

text \<open>
  Examples: a save for applicant 100 that supplies nothing but the Minecraft name; a
  first save, for an identity the store does not hold; and a save that carries the
  stored \<open>openedAt\<close> over.
\<close>

definition partial_update :: "json \<times> fs" where
  "partial_update =
     saveApplicant ''2025-04-01T12:00:00.000Z'' roster (str ''100'')
       [(''minecraftUser'', JStr ''Steve'')] (Some JNull) (Some JNull) (Some (JBool False))
       (Some JNull)"

definition first_save :: "json \<times> fs" where
  "first_save =
     saveApplicant ''2025-04-01T12:00:00.000Z'' roster (str ''600'')
       [(''discordUser'', JStr ''kit#0006''), (''minecraftUser'', JStr ''KitKat''),
        (''minecraftVersion'', JStr ''Java''), (''timezone'', JStr ''CET'')]
       (str ''7'') (Some JNull) (Some (JBool False)) (Some JNull)"

definition carried_save :: "json \<times> fs" where
  "carried_save =
     saveApplicant ''2025-04-01T12:00:00.000Z'' roster (str ''100'')
       [(''discordTag'', JStr ''steve#0001''), (''minecraftName'', JStr ''Steve''),
        (''openedAt'', JStr ''2025-03-01T09:00:00.000Z'')]
       (Some JNull) (str ''inactive'') (Some (JBool False)) (str ''2025-04-01T12:00:00.000Z'')"

subsection \<open>Identity links\<close>

text \<open>
  A link store is well formed when its keys are distinct, as the keys of an object
  are, and every entry is a link record: an object whose \<open>minecraftUser\<close> is an ASCII
  string. \<open>username_linked mcName data\<close>: some entry's username equals \<open>mcName\<close> up
  to letter case. Examples: a store that links identity 100 to \<open>Steve\<close>, and an
  installation whose applicant 500 was stored under the legacy field names.
\<close>

definition is_link_record :: "json \<Rightarrow> bool" where
  "is_link_record v =
     (case js_get (Some v) ''minecraftUser'' of Some (JStr u) \<Rightarrow> ascii_string u | _ \<Rightarrow> False)"

definition link_store_ok :: "obj \<Rightarrow> bool" where
  "link_store_ok data = (distinct (map fst data) \<and> list_all is_link_record (map snd data))"

definition username_linked :: "string \<Rightarrow> obj \<Rightarrow> bool" where
  "username_linked mcName data =
     list_ex (\<lambda>v. minecraftUser_key v = Inr (toLowerCase mcName)) (map snd data)"

definition linked :: fs where
  "linked = roster\<lparr>linking_json := Some (Doc
     [(''100'', JObj [(''discordId'', JStr ''100''), (''minecraftUser'', JStr ''Steve'')])])\<rparr>"

definition legacy :: fs where
  "legacy = fresh\<lparr>applicants_json := Some (Doc
     [(''500'', JObj [(''discordTag'', JStr ''herobrine#0005''),
                      (''minecraftName'', JStr ''Herobrine'')])])\<rparr>"

subsection \<open>Opening and closing an application\<close>

text \<open>
  Example: on a fresh installation applicant 100 submits the application form, and a
  staff member later closes the ticket.
\<close>

definition steve_applies :: application_modal where
  "steve_applies =
     \<lparr>user_id = ''100'', user_tag = ''steve#0001'', guild_id = ''7'',
      minecraft_name = ''Steve'', minecraft_version = ''Java'', time_zone = ''GMT'',
      previous_groups = ''none'', why = ''friends'', category_found = True,
      created_channel_id = ''901''\<rparr>"

definition opened :: "(exn + reply) \<times> jsval list \<times> fs" where
  "opened = modalHandler_application ''2025-03-01T09:00:00.000Z'' fresh steve_applies"

definition staff_closes :: close_reason_modal where
  "staff_closes =
     \<lparr>closer_tag = ''mod#9999'', closer_guild_id = ''7'', close_reason = ''inactive'',
      ticket_channel = ''901'', channel_found = True\<rparr>"

definition closed :: "(exn + reply) \<times> fs" where
  "closed = modalHandler_close_reason ''2025-03-05T18:30:00.000Z'' (snd (snd opened)) staff_closes"

section \<open>Properties\<close>

subsection \<open>Values\<close>

lemma js_get_obj: "js_get (Some (JObj ps)) k = map_of ps k"
  by (simp add: js_get_def)

lemma or_null_eq_JNull: "(or_null v = JNull) = (\<not> js_truthy v)"
  by (cases v) (auto simp: or_null_def or_else_def js_truthy_def)

lemma truthy_or_null: "truthy (or_null v) = js_truthy v"
  by (cases v) (auto simp: or_null_def or_else_def js_truthy_def)

lemma or_null_truthy: "truthy j \<Longrightarrow> or_null (Some j) = j"
  by (simp add: or_null_def or_else_def)

subsection \<open>Loading and saving a store\<close>

lemma ensureDataFile_cases:
  "ensureDataFile None = ([], Some (Doc []))"
  "ensureDataFile (Some Blank) = ([], Some (Doc []))"
  "ensureDataFile (Some Garbage) = ([], Some (Doc []))"
  "ensureDataFile (Some (Doc d)) = (d, Some (Doc d))"
  by (simp_all add: ensureDataFile_def ensureDataFile_try_def existsSync_def readFileSync_def
      JSON_parse_def writeFileSync_def)

lemma loadApplicants_cases:
  "loadApplicants None = ([], None)"
  "loadApplicants (Some Blank) = ([], Some Blank)"
  "loadApplicants (Some Garbage) = ([], Some Garbage)"
  "loadApplicants (Some (Doc d)) = (d, Some (Doc d))"
  by (simp_all add: loadApplicants_def loadApplicants_try_def readFileSync_def JSON_parse_def)

lemma readClans_cases:
  "readClans None = ([], Some (Doc []))"
  "readClans (Some Blank) = ([], Some (Doc []))"
  "readClans (Some Garbage) = ([], Some (Doc []))"
  "readClans (Some (Doc d)) = (d, Some (Doc d))"
  by (simp_all add: readClans_def readClans_try_def clan_ensureDataFile_def existsSync_def
      readFileSync_def JSON_parse_def writeFileSync_def)

lemma loadJSON_cases:
  "loadJSON None = ([], None)"
  "loadJSON (Some Blank) = ([], Some Blank)"
  "loadJSON (Some Garbage) = ([], Some Garbage)"
  "loadJSON (Some (Doc d)) = (d, Some (Doc d))"
  by (simp_all add: loadJSON_def loadJSON_try_def existsSync_def readFileSync_def
      JSON_parse_def)

lemma readMembers_cases:
  "readMembers None = ([], None)"
  "readMembers (Some Blank) = ([], Some Blank)"
  "readMembers (Some Garbage) = ([], Some Garbage)"
  "readMembers (Some (Doc d)) = (d, Some (Doc d))"
  by (simp_all add: readMembers_def readMembers_try_def existsSync_def readFileSync_def
      JSON_parse_def)

text \<open>
  The session cache is not such a store: \<open>readCache\<close> throws on a missing file and
  on a file that fails to parse.
\<close>

lemma readCache_throws:
  "readCache None = Inl ENOENT" "readCache (Some Garbage) = Inl SyntaxError"
  by (simp_all add: readCache_def readFileSync_def JSON_parse_def)

text \<open>
  C8, as stated, fails for the applicants store: \<open>loadApplicants\<close> on a missing file
  returns the empty mapping and leaves the file missing (the file is written by the
  module's start-up code and by the next save, not by the load). The same holds for
  \<open>loadJSON\<close> and \<open>readMembers\<close>.
\<close>

theorem load_missing_not_created:
  "fst (loadApplicants None) = [] \<and> \<not> existsSync (snd (loadApplicants None))"
  by (simp add: loadApplicants_cases existsSync_def)

text \<open>
  C8, amended. No loader of a store throws (each returns a mapping, never an
  exception): on a missing file and on a file that fails to parse each returns the
  empty mapping. \<open>ensureDataFile\<close> of \<open>linklogic.js\<close> and \<open>readClans\<close> then leave an
  empty document on disk; \<open>loadApplicants\<close>, \<open>loadJSON\<close> (with which
  \<open>acceptApplicant\<close> reads \<open>applicants.json\<close>, \<open>members.json\<close> and \<open>clans.json\<close>) and
  \<open>readMembers\<close> leave the file as it was, and \<open>applicants.json\<close> is created when
  its module starts. A save after any of these loads leaves the saved mapping on
  disk, where the next load finds it.
\<close>

theorem load_total_save_succeeds:
  "ensureDataFile None = ([], Some (Doc [])) \<and>
   ensureDataFile (Some Garbage) = ([], Some (Doc [])) \<and>
   readClans None = ([], Some (Doc [])) \<and>
   readClans (Some Garbage) = ([], Some (Doc [])) \<and>
   loadApplicants None = ([], None) \<and>
   loadApplicants (Some Garbage) = ([], Some Garbage) \<and>
   existsSync (applicants_init None) \<and>
   loadJSON None = ([], None) \<and>
   loadJSON (Some Garbage) = ([], Some Garbage) \<and>
   readMembers None = ([], None) \<and>
   readMembers (Some Garbage) = ([], Some Garbage) \<and>
   ensureDataFile (saveData d) = (d, saveData d) \<and>
   loadApplicants (saveApplicants d) = (d, saveApplicants d) \<and>
   readClans (writeClans d) = (d, writeClans d) \<and>
   loadJSON (saveJSON d) = (d, saveJSON d) \<and>
   readMembers (saveJSON d) = (d, saveJSON d)"
  by (simp add: ensureDataFile_cases loadApplicants_cases readClans_cases loadJSON_cases
      readMembers_cases saveData_def saveApplicants_def writeClans_def saveJSON_def
      writeFileSync_def applicants_init_def existsSync_def)

subsection \<open>Unlinked users\<close>

lemma fst_readMembers: "fst (readMembers f) = doc_of f"
proof (cases f)
  case None
  then show ?thesis by (simp add: readMembers_cases doc_of_def)
next
  case (Some raw)
  then show ?thesis by (cases raw) (simp_all add: readMembers_cases doc_of_def)
qed

lemma fst_ensureDataFile: "fst (ensureDataFile f) = doc_of f"
proof (cases f)
  case None
  then show ?thesis by (simp add: ensureDataFile_cases doc_of_def)
next
  case (Some raw)
  then show ?thesis by (cases raw) (simp_all add: ensureDataFile_cases doc_of_def)
qed

text \<open>
  C9. For every \<open>discordId\<close> that is not the name of a member of \<open>Object.prototype\<close>
  (no Discord identity is), \<open>isUnlinked(discordId)\<close> is true exactly when both
  lookups miss: \<open>getMemberByDiscordId\<close> returns \<open>null\<close> and \<open>getMCFromDiscord\<close> returns
  \<open>null\<close>; that is, when \<open>members.json\<close> holds no record under \<open>discordId\<close> and
  \<open>linking.json\<close> holds no Minecraft username for it.
\<close>

theorem isUnlinked_iff_both_miss:
  assumes "\<not> inherited discordId"
  shows "fst (isUnlinked s (str discordId)) =
           (getMemberByDiscordId s (str discordId) = JNull \<and>
            fst (getMCFromDiscord s (str discordId)) = JNull) \<and>
         fst (isUnlinked s (str discordId)) =
           (\<not> js_truthy (map_of (doc_of (members_json s)) discordId) \<and>
            \<not> js_truthy (js_get (map_of (doc_of (linking_json s)) discordId)
                            ''minecraftUser''))"
proof -
  have k: "to_key (str discordId) = discordId" by (simp add: to_key_def)
  have m: "(getMemberByDiscordId s (str discordId) = JNull) =
             (\<not> js_truthy (map_of (doc_of (members_json s)) discordId))"
    by (simp add: getMemberByDiscordId_def or_null_eq_JNull fst_readMembers k)
  have l: "(fst (getMCFromDiscord s (str discordId)) = JNull) =
             (\<not> js_truthy (js_get (map_of (doc_of (linking_json s)) discordId)
                              ''minecraftUser''))"
    by (simp add: getMCFromDiscord_def split_def Let_def or_null_eq_JNull fst_ensureDataFile k)
  have tm: "truthy (getMemberByDiscordId s (str discordId)) =
              js_truthy (map_of (doc_of (members_json s)) discordId)"
    by (simp add: getMemberByDiscordId_def truthy_or_null fst_readMembers k)
  have tl: "truthy (fst (getMCFromDiscord s (str discordId))) =
              js_truthy (js_get (map_of (doc_of (linking_json s)) discordId) ''minecraftUser'')"
    by (simp add: getMCFromDiscord_def split_def Let_def truthy_or_null fst_ensureDataFile k)
  have "fst (isUnlinked s (str discordId)) =
          (\<not> truthy (getMemberByDiscordId s (str discordId)) \<and>
           \<not> truthy (fst (getMCFromDiscord s (str discordId))))"
    by (simp add: isUnlinked_def split_def Let_def)
  then show ?thesis by (simp add: m l tm tl)
qed

theorem isUnlinked_iff_both_miss_witness:
  "\<not> fst (isUnlinked registry (str ''100000000000000001'')) \<and>
   \<not> fst (isUnlinked registry (str ''200000000000000002'')) \<and>
   fst (isUnlinked registry (str ''300000000000000003''))"
proof -
  have 1: "\<not> inherited ''100000000000000001''" and 2: "\<not> inherited ''200000000000000002''"
    and 3: "\<not> inherited ''300000000000000003''"
    by (simp_all add: inherited_def)
  have member: "js_truthy (map_of (doc_of (members_json registry)) ''100000000000000001'')"
    by code_simp
  have link: "js_truthy (js_get (map_of (doc_of (linking_json registry)) ''200000000000000002'')
                          ''minecraftUser'')"
    by code_simp
  have neither: "\<not> js_truthy (map_of (doc_of (members_json registry)) ''300000000000000003'') \<and>
        \<not> js_truthy (js_get (map_of (doc_of (linking_json registry)) ''300000000000000003'')
                        ''minecraftUser'')"
    by code_simp
  have a: "\<not> fst (isUnlinked registry (str ''100000000000000001''))"
    using isUnlinked_iff_both_miss[OF 1, of registry, THEN conjunct2] member by simp
  have b: "\<not> fst (isUnlinked registry (str ''200000000000000002''))"
    using isUnlinked_iff_both_miss[OF 2, of registry, THEN conjunct2] link by simp
  have c: "fst (isUnlinked registry (str ''300000000000000003''))"
    using isUnlinked_iff_both_miss[OF 3, of registry, THEN conjunct2] neither by simp
  show ?thesis by (intro conjI) (rule a, rule b, rule c)
qed

subsection \<open>Ticket counters\<close>

lemma map_of_update_other: "k \<noteq> k' \<Longrightarrow> map_of (AList.update k v ps) k' = map_of ps k'"
  by (simp add: update_conv')

lemma map_of_update_same: "map_of (AList.update k v ps) k = Some v"
  by (simp add: update_conv')

lemma map_of_delete_other: "k \<noteq> k' \<Longrightarrow> map_of (AList.delete k ps) k' = map_of ps k'"
  by (simp add: delete_conv')

lemma is_number_update:
  "list_all is_number (map snd cs) \<Longrightarrow> is_number v \<Longrightarrow>
   list_all is_number (map snd (AList.update k v cs))"
  by (induction cs) auto

lemma numeric_lookup:
  "list_all is_number (map snd cs) \<Longrightarrow> map_of cs k = Some v \<Longrightarrow> is_number v"
  by (induction cs) (auto split: if_splits)

lemma plus_one_counter:
  assumes "list_all is_number (map snd cs)"
  shows "plus_one (or_else (map_of cs t) (JNum 0)) =
         JNum ((case map_of cs t of Some (JNum n) \<Rightarrow> n | _ \<Rightarrow> 0) + 1)"
proof (cases "map_of cs t")
  case None
  then show ?thesis by (simp add: or_else_def)
next
  case (Some v)
  with assms have "is_number v" by (rule numeric_lookup)
  then obtain n where "v = JNum n" by (cases v) (auto simp: is_number_def)
  with Some show ?thesis by (simp add: or_else_def)
qed

text \<open>What \<open>getNextNumber\<close> does to a cache whose counters are numbers.\<close>

lemma getNextNumber_counters:
  assumes doc: "cache_json s = Some (Doc cache)" and ok: "counters_ok cache"
  obtains cs cache' where
    "list_all is_number (map snd cs)"
    "\<And>u. (case map_of cs u of Some (JNum n) \<Rightarrow> n | _ \<Rightarrow> 0) = counter_of cache u"
    "getNextNumber s t =
       (Inr (Some (JNum (counter_of cache t + 1))), s\<lparr>cache_json := Some (Doc cache')\<rparr>)"
    "map_of cache' ''__counters'' = Some (JObj (AList.update t (JNum (counter_of cache t + 1)) cs))"
    "\<And>k. k \<noteq> ''__counters'' \<Longrightarrow> map_of cache' k = map_of cache k"
proof (cases "js_truthy (map_of cache ''__counters'')")
  case False
  let ?init = "[(''application'', JNum 0), (''normal'', JNum 0)]"
  let ?cache1 = "AList.update ''__counters'' (JObj ?init) cache"
  have zero: "counter_of cache u = 0" for u
    using False by (auto simp: counter_of_def js_get_def js_truthy_def split: option.splits json.splits)
  have init0: "(case map_of ?init u of Some (JNum n) \<Rightarrow> n | _ \<Rightarrow> 0) = 0" for u by simp
  have num: "list_all is_number (map snd ?init)" by (simp add: is_number_def)
  have v: "plus_one (or_else (map_of ?init t) (JNum 0)) = JNum (counter_of cache t + 1)"
    using plus_one_counter[OF num, of t] init0[of t] zero[of t] by simp
  let ?cache' = "AList.update ''__counters'' (JObj (AList.update t (JNum (counter_of cache t + 1)) ?init)) ?cache1"
  have "getNextNumber s t = (Inr (Some (JNum (counter_of cache t + 1))), s\<lparr>cache_json := Some (Doc ?cache')\<rparr>)"
    using False doc v
    by (simp add: getNextNumber_def readCache_def readFileSync_def JSON_parse_def Let_def
        map_of_update_same writeCache_def writeFileSync_def del: AList.update.simps)
  moreover have "map_of ?cache' ''__counters'' = Some (JObj (AList.update t (JNum (counter_of cache t + 1)) ?init))"
    by (rule map_of_update_same)
  moreover have "\<And>k. k \<noteq> ''__counters'' \<Longrightarrow> map_of ?cache' k = map_of cache k"
    by (simp add: update_conv' del: AList.update.simps)
  ultimately show ?thesis using that[OF num, of ?cache'] init0 zero by simp
next
  case True
  then obtain cs where cs: "map_of cache ''__counters'' = Some (JObj cs)"
    and num: "list_all is_number (map snd cs)"
    using ok by (auto simp: counters_ok_def js_truthy_def split: option.splits json.splits)
  have c: "(case map_of cs u of Some (JNum n) \<Rightarrow> n | _ \<Rightarrow> 0) = counter_of cache u" for u
    using cs by (simp add: counter_of_def js_get_def)
  have v: "plus_one (or_else (map_of cs t) (JNum 0)) = JNum (counter_of cache t + 1)"
    using plus_one_counter[OF num, of t] c[of t] by simp
  let ?cache' = "AList.update ''__counters'' (JObj (AList.update t (JNum (counter_of cache t + 1)) cs)) cache"
  have "getNextNumber s t = (Inr (Some (JNum (counter_of cache t + 1))), s\<lparr>cache_json := Some (Doc ?cache')\<rparr>)"
    using True doc v cs
    by (simp add: getNextNumber_def readCache_def readFileSync_def JSON_parse_def Let_def
        writeCache_def writeFileSync_def del: AList.update.simps)
  moreover have "map_of ?cache' ''__counters'' = Some (JObj (AList.update t (JNum (counter_of cache t + 1)) cs))"
    by (rule map_of_update_same)
  moreover have "\<And>k. k \<noteq> ''__counters'' \<Longrightarrow> map_of ?cache' k = map_of cache k"
    by (simp add: update_conv' del: AList.update.simps)
  ultimately show ?thesis using that[OF num c] by simp
qed


lemma cache_doc_update [simp]: "cache_doc (s\<lparr>cache_json := Some (Doc c)\<rparr>) = c"
  by (simp add: cache_doc_def)

lemma counter_of_cong:
  "map_of c' ''__counters'' = map_of c ''__counters'' \<Longrightarrow> counter_of c' u = counter_of c u"
  by (simp add: counter_of_def)

lemma counters_ok_cong:
  "map_of c' ''__counters'' = map_of c ''__counters'' \<Longrightarrow> counters_ok c' = counters_ok c"
  by (simp add: counters_ok_def)

lemma getNextNumber_step:
  assumes doc: "cache_json s = Some (Doc cache)" and ok: "counters_ok cache"
  shows "fst (getNextNumber s t) = Inr (Some (JNum (counter_of cache t + 1)))"
    and "cache_json (snd (getNextNumber s t)) = Some (Doc (cache_doc (snd (getNextNumber s t))))"
    and "counters_ok (cache_doc (snd (getNextNumber s t)))"
    and "counter_of (cache_doc (snd (getNextNumber s t))) u =
           (if u = t then counter_of cache t + 1 else counter_of cache u)"
    and "k \<noteq> ''__counters'' \<Longrightarrow> map_of (cache_doc (snd (getNextNumber s t))) k = map_of cache k"
proof -
  obtain cs cache' where num: "list_all is_number (map snd cs)"
    and c: "\<And>u. (case map_of cs u of Some (JNum n) \<Rightarrow> n | _ \<Rightarrow> 0) = counter_of cache u"
    and g: "getNextNumber s t =
       (Inr (Some (JNum (counter_of cache t + 1))), s\<lparr>cache_json := Some (Doc cache')\<rparr>)"
    and m: "map_of cache' ''__counters'' = Some (JObj (AList.update t (JNum (counter_of cache t + 1)) cs))"
    and o: "\<And>k. k \<noteq> ''__counters'' \<Longrightarrow> map_of cache' k = map_of cache k"
    using getNextNumber_counters[OF doc ok, of t] by blast
  show "fst (getNextNumber s t) = Inr (Some (JNum (counter_of cache t + 1)))"
    by (simp add: g)
  show "cache_json (snd (getNextNumber s t)) = Some (Doc (cache_doc (snd (getNextNumber s t))))"
    by (simp add: g)
  show "counters_ok (cache_doc (snd (getNextNumber s t)))"
    using num by (simp add: g counters_ok_def m is_number_update is_number_def)
  show "counter_of (cache_doc (snd (getNextNumber s t))) u =
           (if u = t then counter_of cache t + 1 else counter_of cache u)"
    using c[of u] by (simp add: g counter_of_def m js_get_def update_conv')
  show "k \<noteq> ''__counters'' \<Longrightarrow> map_of (cache_doc (snd (getNextNumber s t))) k = map_of cache k"
    by (simp add: g o)
qed

lemma cache_set_doc:
  assumes "cache_json s = Some (Doc cache)"
  shows "cache_set s k d = (Inr (), s\<lparr>cache_json := Some (Doc (AList.update k d cache))\<rparr>)"
  using assms
  by (simp add: cache_set_def readCache_def readFileSync_def JSON_parse_def writeCache_def
      writeFileSync_def)

lemma cache_delete_doc:
  assumes "cache_json s = Some (Doc cache)"
  shows "cache_delete s k = (Inr (), s\<lparr>cache_json := Some (Doc (AList.delete k cache))\<rparr>)"
  using assms
  by (simp add: cache_delete_def readCache_def readFileSync_def JSON_parse_def writeCache_def
      writeFileSync_def)

lemma session_step:
  assumes doc: "cache_json s = Some (Doc cache)" and ok: "counters_ok cache"
    and op: "session_op op"
  shows "cache_json (snd (cache_step s op)) = Some (Doc (cache_doc (snd (cache_step s op))))"
    and "counters_ok (cache_doc (snd (cache_step s op)))"
    and "counter_of (cache_doc (snd (cache_step s op))) t =
           (if op = GetNextNumber t then counter_of cache t + 1 else counter_of cache t)"
proof -
  have "cache_json (snd (cache_step s op)) = Some (Doc (cache_doc (snd (cache_step s op)))) \<and>
        counters_ok (cache_doc (snd (cache_step s op))) \<and>
        counter_of (cache_doc (snd (cache_step s op))) t =
           (if op = GetNextNumber t then counter_of cache t + 1 else counter_of cache t)"
  proof (cases op)
    case (GetNextNumber u)
    then show ?thesis
      using getNextNumber_step(2)[OF doc ok, of u] getNextNumber_step(3)[OF doc ok, of u]
        getNextNumber_step(4)[OF doc ok, where t = u and u = t] by auto
  next
    case (Set k d)
    with op have k: "k \<noteq> ''__counters''" by simp
    then have "map_of (AList.update k d cache) ''__counters'' = map_of cache ''__counters''"
      by (rule map_of_update_other)
    then show ?thesis
      using Set ok counter_of_cong[of "AList.update k d cache" cache t]
        counters_ok_cong[of "AList.update k d cache" cache]
      by (simp add: cache_set_doc[OF doc] del: AList.update.simps)
  next
    case (Delete k)
    with op have k: "k \<noteq> ''__counters''" by simp
    then have "map_of (AList.delete k cache) ''__counters'' = map_of cache ''__counters''"
      by (rule map_of_delete_other)
    then show ?thesis
      using Delete ok counter_of_cong[of "AList.delete k cache" cache t]
        counters_ok_cong[of "AList.delete k cache" cache]
      by (simp add: cache_delete_doc[OF doc])
  qed
  then show "cache_json (snd (cache_step s op)) = Some (Doc (cache_doc (snd (cache_step s op))))"
    and "counters_ok (cache_doc (snd (cache_step s op)))"
    and "counter_of (cache_doc (snd (cache_step s op))) t =
           (if op = GetNextNumber t then counter_of cache t + 1 else counter_of cache t)"
    by simp_all
qed

lemma map_upt_shift:
  "map f [Suc 0..<Suc (Suc m)] = f (Suc 0) # map (\<lambda>i. f (Suc i)) [Suc 0..<Suc m]"
proof -
  have "[Suc 0..<Suc (Suc m)] = Suc 0 # [Suc (Suc 0)..<Suc (Suc m)]"
    by (rule upt_conv_Cons) simp
  also have "[Suc (Suc 0)..<Suc (Suc m)] = map Suc [Suc 0..<Suc m]"
    by (rule map_Suc_upt[symmetric])
  finally show ?thesis by (simp add: comp_def)
qed

lemma issued_sessions:
  assumes "cache_json s = Some (Doc cache)" "counters_ok cache" "list_all session_op ops"
  shows "issued t s ops =
     map (\<lambda>i. Inr (Some (JNum (counter_of cache t + int i))))
       [1..<Suc (count_list ops (GetNextNumber t))]"
  using assms
proof (induction ops arbitrary: s cache)
  case Nil
  then show ?case by simp
next
  case (Cons op ops)
  from Cons.prems have op: "session_op op" and rest: "list_all session_op ops" by simp_all
  note st = session_step[OF Cons.prems(1,2) op]
  have ih: "issued t (snd (cache_step s op)) ops =
     map (\<lambda>i. Inr (Some (JNum (counter_of (cache_doc (snd (cache_step s op))) t + int i))))
       [1..<Suc (count_list ops (GetNextNumber t))]"
    by (rule Cons.IH[OF st(1) st(2) rest])
  show ?case
  proof (cases "op = GetNextNumber t")
    case True
    have first: "fst (cache_step s op) = Inr (Some (JNum (counter_of cache t + 1)))"
      using True getNextNumber_step(1)[OF Cons.prems(1,2), of t] by simp
    show ?thesis
    proof -
      let ?m = "count_list ops (GetNextNumber t)"
      let ?c = "counter_of cache t"
      have c': "counter_of (cache_doc (snd (cache_step s op))) t = ?c + 1"
        using True st(3)[of t] by simp
      have "issued t s (op # ops) = fst (cache_step s op) # issued t (snd (cache_step s op)) ops"
        using True by simp
      also have "\<dots> = Inr (Some (JNum (?c + 1))) #
          map (\<lambda>i. Inr (Some (JNum (?c + 1 + int i)))) [Suc 0..<Suc ?m]"
        by (simp only: first ih c' One_nat_def)
      also have "\<dots> = map (\<lambda>i. Inr (Some (JNum (?c + int i)))) [Suc 0..<Suc (Suc ?m)]"
        by (simp only: map_upt_shift[of "\<lambda>i. Inr (Some (JNum (?c + int i)))" ?m])
           (simp add: add.assoc)
      finally show ?thesis using True by (simp del: upt_Suc)
    qed
  next
    case False
    then show ?thesis using ih st(3)[of t] by simp
  qed
qed


lemma issued_open_three_close_two_open_one:
  "issued ''application'' fresh open_three_close_two_open_one =
     [Inr (Some (JNum 1)), Inr (Some (JNum 2)), Inr (Some (JNum 3)), Inr (Some (JNum 4))]"
  by code_simp

lemma counters_ok_absent: "map_of cache ''__counters'' = None \<Longrightarrow> counters_ok cache"
  by (simp add: counters_ok_def)

lemma counter_of_absent: "map_of cache ''__counters'' = None \<Longrightarrow> counter_of cache t = 0"
  by (simp add: counter_of_def js_get_def)

lemma getNextNumber_restart:
  assumes "cache_json s = Some (Doc cache)" "map_of cache ''__counters'' = None"
  shows "fst (getNextNumber s t) = Inr (Some (JNum 1))"
  using getNextNumber_step(1)[OF assms(1) counters_ok_absent[OF assms(2)], of t]
    counter_of_absent[OF assms(2), of t] by simp

text \<open>
  C7. On a cache whose counters are numbers, for a ticket type whose counter is a
  safe integer: \<open>getNextNumber(type)\<close> returns one more than the stored counter of
  that type and stores it; on a fresh cache it returns 1. Deleting a session with
  \<open>delete(sessionKey)\<close> (a session key is not \<open>__counters\<close>) removes the session, keeps
  every other entry and leaves the counters as they are. So every sequence of
  session calls issues the consecutive numbers after the stored counter, none
  twice (as long as they stay within the safe integers), and opening three
  application tickets, closing two and opening a fourth issues 1, 2, 3, 4.
\<close>

theorem ticket_counters_increase:
  assumes "cache_json s = Some (Doc cache)" and "counters_ok cache"
    and "\<not> inherited type" and "safe_integer (counter_of cache type)"
    and "sessionKey \<noteq> ''__counters''"
    and "list_all session_op ops"
    and "counter_of cache type + int (count_list ops (GetNextNumber type)) \<le> 9007199254740992"
  shows "fst (getNextNumber s type) = Inr (Some (JNum (counter_of cache type + 1))) \<and>
         counter_of (cache_doc (snd (getNextNumber s type))) type = counter_of cache type + 1 \<and>
         counters_ok (cache_doc (snd (getNextNumber s type))) \<and>
         fst (getNextNumber (s\<lparr>cache_json := Some (Doc [])\<rparr>) type) = Inr (Some (JNum 1)) \<and>
         fst (cache_delete s sessionKey) = Inr () \<and>
         map_of (cache_doc (snd (cache_delete s sessionKey))) = (map_of cache)(sessionKey := None) \<and>
         map_of (cache_doc (snd (cache_delete s sessionKey))) ''__counters'' =
           map_of cache ''__counters'' \<and>
         counter_of (cache_doc (snd (cache_delete s sessionKey))) type = counter_of cache type \<and>
         issued type s ops =
           map (\<lambda>i. Inr (Some (JNum (counter_of cache type + int i))))
             [1..<Suc (count_list ops (GetNextNumber type))] \<and>
         issued ''application'' fresh open_three_close_two_open_one =
           [Inr (Some (JNum 1)), Inr (Some (JNum 2)), Inr (Some (JNum 3)), Inr (Some (JNum 4))]"
proof -
  note g = getNextNumber_step[OF assms(1,2), of type]
  have d: "cache_delete s sessionKey =
             (Inr (), s\<lparr>cache_json := Some (Doc (AList.delete sessionKey cache))\<rparr>)"
    by (rule cache_delete_doc[OF assms(1)])
  have m: "map_of (AList.delete sessionKey cache) ''__counters'' = map_of cache ''__counters''"
    by (rule map_of_delete_other[OF assms(5)])
  have one: "fst (getNextNumber (s\<lparr>cache_json := Some (Doc [])\<rparr>) type) = Inr (Some (JNum 1))"
    by (rule getNextNumber_restart[of _ "[]"]) simp_all
  have seq: "issued type s ops =
           map (\<lambda>i. Inr (Some (JNum (counter_of cache type + int i))))
             [1..<Suc (count_list ops (GetNextNumber type))]"
    by (rule issued_sessions[OF assms(1,2,6)])
  have del: "map_of (cache_doc (snd (cache_delete s sessionKey))) =
               (map_of cache)(sessionKey := None)"
    by (simp add: d delete_conv')
  have cnt: "counter_of (cache_doc (snd (cache_delete s sessionKey))) type = counter_of cache type"
    using counter_of_cong[OF m, of type] by (simp add: d)
  have mc: "map_of (cache_doc (snd (cache_delete s sessionKey))) ''__counters'' =
           map_of cache ''__counters''"
    using m by (simp add: d)
  have f: "fst (cache_delete s sessionKey) = Inr ()" by (simp add: d)
  have g4: "counter_of (cache_doc (snd (getNextNumber s type))) type = counter_of cache type + 1"
    using g(4)[of type] by simp
  show ?thesis
    by (intro conjI)
       (rule g(1), rule g4, rule g(3), rule one, rule f, rule del, rule mc, rule cnt, rule seq,
        rule issued_open_three_close_two_open_one)
qed

theorem ticket_counters_increase_witness:
  "fst (getNextNumber busy ''application'') = Inr (Some (JNum 4)) \<and>
   counter_of (cache_doc (snd (getNextNumber busy ''application''))) ''application'' = 4 \<and>
   map_of (cache_doc (snd (cache_delete busy ''903''))) ''903'' = None \<and>
   counter_of (cache_doc (snd (cache_delete busy ''903''))) ''application'' = 3 \<and>
   issued ''application'' busy
     [Delete ''903'', GetNextNumber ''application'', GetNextNumber ''normal'',
      Set ''904'' (ticket ''14'' 4), GetNextNumber ''application''] =
     [Inr (Some (JNum 4)), Inr (Some (JNum 5))]"
proof -
  let ?cache = "[(''__counters'', JObj [(''application'', JNum 3), (''normal'', JNum 0)]),
                 (''903'', ticket ''13'' 3)]"
  let ?ops = "[Delete ''903'', GetNextNumber ''application'', GetNextNumber ''normal'',
               Set ''904'' (ticket ''14'' 4), GetNextNumber ''application'']"
  have 1: "cache_json busy = Some (Doc ?cache)"
    by (simp add: busy_def)
  have 2: "counters_ok ?cache"
    by (simp add: counters_ok_def is_number_def)
  have 3: "\<not> inherited ''application''"
    by (simp add: inherited_def)
  have c: "counter_of ?cache ''application'' = 3"
    by (simp add: counter_of_def js_get_def)
  have 4: "safe_integer (counter_of ?cache ''application'')"
    by (simp add: c safe_integer_def)
  have 5: "''903'' \<noteq> ''__counters''" by simp
  have 6: "list_all session_op ?ops"
    by (simp add: inherited_def)
  have n: "count_list ?ops (GetNextNumber ''application'') = 2"
    by simp
  have 7: "counter_of ?cache ''application'' +
             int (count_list ?ops (GetNextNumber ''application'')) \<le> 9007199254740992"
    unfolding c n by simp
  have l: "map (\<lambda>i. Inr (Some (JNum (3 + int i)))) [1..<Suc 2] =
           [Inr (Some (JNum 4)), Inr (Some (JNum 5)) :: exn + jsval]"
    by code_simp
  have u: "((map_of ?cache)(''903'' := None)) ''903'' = None" by simp
  note t = ticket_counters_increase[OF 1 2 3 4 5 6 7, unfolded c n l]
  have a: "fst (getNextNumber busy ''application'') = Inr (Some (JNum (3 + 1)))"
    using t by (elim conjE) assumption
  have b: "counter_of (cache_doc (snd (getNextNumber busy ''application''))) ''application'' = 3 + 1"
    using t by (elim conjE) assumption
  have d: "map_of (cache_doc (snd (cache_delete busy ''903''))) = (map_of ?cache)(''903'' := None)"
    using t by (elim conjE) assumption
  have e: "counter_of (cache_doc (snd (cache_delete busy ''903''))) ''application'' = 3"
    using t by (elim conjE) assumption
  have f: "issued ''application'' busy ?ops = [Inr (Some (JNum 4)), Inr (Some (JNum 5))]"
    using t by (elim conjE) assumption
  from a have a': "fst (getNextNumber busy ''application'') = Inr (Some (JNum 4))"
    by simp
  from b have b': "counter_of (cache_doc (snd (getNextNumber busy ''application'')))
                     ''application'' = 4"
    by simp
  have d': "map_of (cache_doc (snd (cache_delete busy ''903''))) ''903'' = None"
    by (simp only: d u)
  show ?thesis
    by (intro conjI) (rule a', rule b', rule d', rule e, rule f)
qed

text \<open>
  C10. The counters live in the cache document itself, under the key \<open>__counters\<close>,
  and \<open>set\<close> and \<open>delete\<close> do not guard that key: \<open>set("__counters", data)\<close> replaces
  the counters by \<open>data\<close>, \<open>delete("__counters")\<close> removes them, and the next
  \<open>getNextNumber\<close> then returns 1 again (also after \<open>set("__counters", {})\<close>), so a
  number is issued twice. Sequences of session calls, whose keys all differ from
  \<open>__counters\<close>, issue consecutive numbers. (For a ticket type whose counter is a
  safe integer, on a cache whose counters are numbers.)
\<close>

theorem counters_key_unguarded:
  assumes "cache_json s = Some (Doc cache)" and "counters_ok cache"
    and "\<not> inherited type" and "safe_integer (counter_of cache type)"
    and "list_all session_op ops"
    and "counter_of cache type + int (count_list ops (GetNextNumber type)) \<le> 9007199254740992"
  shows "js_get (map_of (cache_doc (snd (getNextNumber s type))) ''__counters'') type =
           Some (JNum (counter_of cache type + 1)) \<and>
         map_of (cache_doc (snd (cache_set s ''__counters'' data))) ''__counters'' = Some data \<and>
         map_of (cache_doc (snd (cache_delete s ''__counters''))) ''__counters'' = None \<and>
         fst (getNextNumber (snd (cache_delete s ''__counters'')) type) = Inr (Some (JNum 1)) \<and>
         fst (getNextNumber (snd (cache_set s ''__counters'' (JObj []))) type) =
           Inr (Some (JNum 1)) \<and>
         issued type s [GetNextNumber type, Delete ''__counters'', GetNextNumber type] =
           [Inr (Some (JNum (counter_of cache type + 1))), Inr (Some (JNum 1))] \<and>
         issued type s ops =
           map (\<lambda>i. Inr (Some (JNum (counter_of cache type + int i))))
             [1..<Suc (count_list ops (GetNextNumber type))]"
proof -
  obtain cs cache' where num: "list_all is_number (map snd cs)"
    and cnt: "\<And>u. (case map_of cs u of Some (JNum n) \<Rightarrow> n | _ \<Rightarrow> 0) = counter_of cache u"
    and g: "getNextNumber s type =
       (Inr (Some (JNum (counter_of cache type + 1))), s\<lparr>cache_json := Some (Doc cache')\<rparr>)"
    and m: "map_of cache' ''__counters'' =
              Some (JObj (AList.update type (JNum (counter_of cache type + 1)) cs))"
    and o: "\<And>k. k \<noteq> ''__counters'' \<Longrightarrow> map_of cache' k = map_of cache k"
    using getNextNumber_counters[OF assms(1,2), of type] by blast
  have a: "js_get (map_of (cache_doc (snd (getNextNumber s type))) ''__counters'') type =
           Some (JNum (counter_of cache type + 1))"
    by (simp add: g m js_get_def update_conv')
  have b: "map_of (cache_doc (snd (cache_set s ''__counters'' data))) ''__counters'' = Some data"
    by (simp add: cache_set_doc[OF assms(1)] update_conv' del: AList.update.simps)
  have c: "map_of (cache_doc (snd (cache_delete s ''__counters''))) ''__counters'' = None"
    by (simp add: cache_delete_doc[OF assms(1)] delete_conv')
  have restart: "fst (getNextNumber (snd (cache_delete s' ''__counters'')) type) = Inr (Some (JNum 1))"
    if "cache_json s' = Some (Doc c')" for s' c'
    by (rule getNextNumber_restart[of _ "AList.delete ''__counters'' c'"])
       (simp_all add: cache_delete_doc[OF that] delete_conv')
  have d: "fst (getNextNumber (snd (cache_delete s ''__counters'')) type) = Inr (Some (JNum 1))"
    by (rule restart[OF assms(1)])
  have e: "fst (getNextNumber (snd (cache_set s ''__counters'' (JObj []))) type) =
           Inr (Some (JNum 1))"
  proof -
    let ?c = "AList.update ''__counters'' (JObj []) cache"
    have doc: "cache_json (snd (cache_set s ''__counters'' (JObj []))) = Some (Doc ?c)"
      by (simp add: cache_set_doc[OF assms(1)] del: AList.update.simps)
    have mc: "map_of ?c ''__counters'' = Some (JObj [])" by (rule map_of_update_same)
    have ok: "counters_ok ?c" by (simp add: counters_ok_def mc del: AList.update.simps)
    have z: "counter_of ?c type = 0" by (simp add: counter_of_def mc js_get_def del: AList.update.simps)
    show ?thesis using getNextNumber_step(1)[OF doc ok, of type] z by simp
  qed
  have f: "issued type s [GetNextNumber type, Delete ''__counters'', GetNextNumber type] =
           [Inr (Some (JNum (counter_of cache type + 1))), Inr (Some (JNum 1))]"
    using restart[of "s\<lparr>cache_json := Some (Doc cache')\<rparr>" cache'] by (simp add: g)
  have h: "issued type s ops =
              map (\<lambda>i. Inr (Some (JNum (counter_of cache type + int i))))
                [1..<Suc (count_list ops (GetNextNumber type))]"
    by (rule issued_sessions[OF assms(1,2,5)])
  show ?thesis
    by (intro conjI) (rule a, rule b, rule c, rule d, rule e, rule f, rule h)
qed

theorem counters_key_unguarded_witness:
  "map_of (cache_doc (snd (cache_set busy ''__counters'' (JNum 7)))) ''__counters'' = Some (JNum 7) \<and>
   map_of (cache_doc (snd (cache_delete busy ''__counters''))) ''__counters'' = None \<and>
   fst (getNextNumber (snd (cache_set busy ''__counters'' (JObj []))) ''application'') =
     Inr (Some (JNum 1)) \<and>
   issued ''application'' busy
     [GetNextNumber ''application'', Delete ''__counters'', GetNextNumber ''application''] =
     [Inr (Some (JNum 4)), Inr (Some (JNum 1))] \<and>
   issued ''application'' busy
     [GetNextNumber ''application'', Delete ''903'', GetNextNumber ''application''] =
     [Inr (Some (JNum 4)), Inr (Some (JNum 5))]"
proof -
  let ?cache = "[(''__counters'', JObj [(''application'', JNum 3), (''normal'', JNum 0)]),
                (''903'', ticket ''13'' 3)]"
  let ?ops = "[GetNextNumber ''application'', Delete ''903'', GetNextNumber ''application'']"
  have 1: "cache_json busy = Some (Doc ?cache)"
    by (simp add: busy_def)
  have 2: "counters_ok ?cache"
    by (simp add: counters_ok_def is_number_def)
  have c3: "counter_of ?cache ''application'' = 3"
    by (simp add: counter_of_def js_get_def)
  have 3: "\<not> inherited ''application''"
    by (simp add: inherited_def)
  have 4: "safe_integer (counter_of ?cache ''application'')"
    by (simp add: c3 safe_integer_def)
  have 5: "list_all session_op ?ops"
    by (simp add: inherited_def)
  have n: "count_list ?ops (GetNextNumber ''application'') = 2"
    by simp
  have 6: "counter_of ?cache ''application'' +
             int (count_list ?ops (GetNextNumber ''application'')) \<le> 9007199254740992"
    unfolding c3 n by simp
  have l: "map (\<lambda>i. Inr (Some (JNum (3 + int i)))) [1..<Suc 2] =
           [Inr (Some (JNum 4)), Inr (Some (JNum 5)) :: exn + jsval]"
    by code_simp
  note t = counters_key_unguarded[OF 1 2 3 4 5 6, of "JNum 7", unfolded c3 n l]
  have a: "map_of (cache_doc (snd (cache_set busy ''__counters'' (JNum 7)))) ''__counters'' =
           Some (JNum 7)"
    using t by (elim conjE) assumption
  have a2: "map_of (cache_doc (snd (cache_delete busy ''__counters''))) ''__counters'' = None"
    using t by (elim conjE) assumption
  have a3: "fst (getNextNumber (snd (cache_set busy ''__counters'' (JObj []))) ''application'') =
     Inr (Some (JNum 1))"
    using t by (elim conjE) assumption
  have b: "issued ''application'' busy
     [GetNextNumber ''application'', Delete ''__counters'', GetNextNumber ''application''] =
     [Inr (Some (JNum (3 + 1))), Inr (Some (JNum 1))]"
    using t by (elim conjE) assumption
  have d: "issued ''application'' busy ?ops = [Inr (Some (JNum 4)), Inr (Some (JNum 5))]"
    using t by (elim conjE) assumption
  from b have b': "issued ''application'' busy
     [GetNextNumber ''application'', Delete ''__counters'', GetNextNumber ''application''] =
     [Inr (Some (JNum 4)), Inr (Some (JNum 1))]"
    by simp
  show ?thesis
    by (intro conjI) (rule a, rule a2, rule a3, rule b', rule d)
qed

subsection \<open>Promotion\<close>

lemma js_get_skip_field:
  "k \<noteq> k' \<Longrightarrow> js_get (Some (JObj (js_field k v @ ps))) k' = map_of ps k'"
  by (cases v) (simp_all add: js_field_def js_get_def)

lemma fst_loadJSON: "fst (loadJSON f) = doc_of f"
proof (cases f)
  case None
  then show ?thesis by (simp add: loadJSON_cases doc_of_def)
next
  case (Some raw)
  then show ?thesis by (cases raw) (simp_all add: loadJSON_cases doc_of_def)
qed

lemma show_nat_digit: "n < 10 \<Longrightarrow> show_nat n = [char_of (48 + n)]"
  by (subst show_nat.simps) (simp del: show_nat.simps)

lemma show_nat_more:
  "10 \<le> n \<Longrightarrow> show_nat n = show_nat (n div 10) @ [char_of (48 + n mod 10)]"
  by (subst show_nat.simps) (simp del: show_nat.simps)

lemma char_of_48: "char_of (48::nat) = CHR ''0''"
  by code_simp

lemma padStart2_show_nat:
  assumes "n < 100"
  shows "padStart2 (show_nat n) = [char_of (48 + n div 10), char_of (48 + n mod 10)]"
proof (cases "n < 10")
  case True
  then show ?thesis by (simp add: show_nat_digit padStart2_def char_of_48 del: show_nat.simps)
next
  case False
  then have "10 \<le> n" by simp
  moreover from assms have "n div 10 < 10" by simp
  ultimately show ?thesis
    by (simp add: show_nat_more show_nat_digit padStart2_def del: show_nat.simps)
qed

lemma show_nat_year:
  assumes "1000 \<le> y" and "y < 10000"
  shows "show_nat y =
     [char_of (48 + y div 1000), char_of (48 + y div 100 mod 10),
      char_of (48 + y div 10 mod 10), char_of (48 + y mod 10)]"
proof -
  have 1: "show_nat y = show_nat (y div 10) @ [char_of (48 + y mod 10)]"
    using assms by (intro show_nat_more) simp
  have e1: "y div 10 div 10 = y div 100" and e2: "y div 100 div 10 = y div 1000"
    by (simp_all add: div_mult2_eq[symmetric])
  have "10 \<le> y div 10" using assms by simp
  then have 2: "show_nat (y div 10) = show_nat (y div 100) @ [char_of (48 + y div 10 mod 10)]"
    using show_nat_more[of "y div 10"] by (simp only: e1)
  have "10 \<le> y div 100" using assms by simp
  then have 3: "show_nat (y div 100) = show_nat (y div 1000) @ [char_of (48 + y div 100 mod 10)]"
    using show_nat_more[of "y div 100"] by (simp only: e2)
  have 4: "show_nat (y div 1000) = [char_of (48 + y div 1000)]"
    using assms by (intro show_nat_digit) simp
  show ?thesis by (simp only: 1 2 3 4) simp
qed

lemma formatDate_digits:
  assumes "getDate d < 100" and "getMonth d < 12"
    and "1000 \<le> getFullYear d" and "getFullYear d < 10000"
  shows "formatDate d =
     [char_of (48 + getDate d div 10), char_of (48 + getDate d mod 10), CHR ''.'',
      char_of (48 + (getMonth d + 1) div 10), char_of (48 + (getMonth d + 1) mod 10), CHR ''.'',
      char_of (48 + getFullYear d div 1000), char_of (48 + getFullYear d div 100 mod 10),
      char_of (48 + getFullYear d div 10 mod 10), char_of (48 + getFullYear d mod 10)]"
proof -
  from assms(2) have m: "getMonth d + 1 < 100" by simp
  show ?thesis
    unfolding formatDate_def padStart2_show_nat[OF assms(1)] padStart2_show_nat[OF m]
      show_nat_year[OF assms(3,4)]
    by simp
qed

text \<open>
  C6. For every \<open>discordId\<close> that is not the name of a member of \<open>Object.prototype\<close>:
  \<open>acceptApplicant(discordId)\<close> changes no file when \<open>applicants.json\<close> has no record
  for \<open>discordId\<close>, or when the record's \<open>accepted\<close> is not truthy (for the flag
  \<open>saveApplicant\<close> writes, a boolean: when it is not \<open>true\<close>). When the record exists
  with \<open>accepted\<close> \<open>true\<close> and a \<open>server\<close>, it changes \<open>members.json\<close> only, and there
  only the entry of \<open>discordId\<close>, which it overwrites by a record whose \<open>JoinedClan\<close>
  is the \<open>name\<close> of the clan registered under that \<open>server\<close>, or \<open>"Unknown"\<close>
  when none is registered, and whose \<open>JoinDate\<close> is the current date written
  \<open>dd.mm.yyyy\<close>.
\<close>

theorem acceptApplicant_promotes:
  assumes "\<not> inherited discordId"
  shows
  "(map_of (doc_of (applicants_json s)) discordId = None \<longrightarrow>
      acceptApplicant now s (str discordId) = s) \<and>
   (map_of (doc_of (applicants_json s)) discordId = Some entry \<and>
    \<not> js_truthy (js_get (Some entry) ''accepted'') \<longrightarrow>
      acceptApplicant now s (str discordId) = s) \<and>
   (map_of (doc_of (applicants_json s)) discordId = Some (JObj r) \<and>
    map_of r ''accepted'' = Some (JBool True) \<and>
    map_of r ''server'' = Some (JStr server) \<and> \<not> inherited server \<and>
    (map_of (doc_of (clans_json s)) server = Some (JObj c) \<and>
       map_of c ''name'' = Some (JStr clan) \<and> clan \<noteq> [] \<or>
     map_of (doc_of (clans_json s)) server = None \<and> clan = ''Unknown'') \<and>
    1 \<le> getDate now \<and> getDate now \<le> 31 \<and> getMonth now \<le> 11 \<and>
    1000 \<le> getFullYear now \<and> getFullYear now \<le> 9999 \<longrightarrow>
      linking_json (acceptApplicant now s (str discordId)) = linking_json s \<and>
      applicants_json (acceptApplicant now s (str discordId)) = applicants_json s \<and>
      clans_json (acceptApplicant now s (str discordId)) = clans_json s \<and>
      cache_json (acceptApplicant now s (str discordId)) = cache_json s \<and>
      map_of (doc_of (members_json (acceptApplicant now s (str discordId)))) =
        (map_of (doc_of (members_json s)))(discordId \<mapsto>
           JObj [(''discordId'', JStr discordId),
                 (''discordUser'', or_else (map_of r ''discordUser'') (JStr [])),
                 (''minecraftUser'', or_else (map_of r ''minecraftUser'') (JStr [])),
                 (''minecraftVersion'', or_else (map_of r ''minecraftVersion'') (JStr [])),
                 (''JoinedClan'', JStr clan),
                 (''JoinDate'', JStr
                    [char_of (48 + getDate now div 10), char_of (48 + getDate now mod 10),
                     CHR ''.'',
                     char_of (48 + (getMonth now + 1) div 10),
                     char_of (48 + (getMonth now + 1) mod 10),
                     CHR ''.'',
                     char_of (48 + getFullYear now div 1000),
                     char_of (48 + getFullYear now div 100 mod 10),
                     char_of (48 + getFullYear now div 10 mod 10),
                     char_of (48 + getFullYear now mod 10)]),
                 (''YazanakiRank'', JStr []), (''EmpireID'', JStr []), (''Status'', JStr [])]))"
proof (intro conjI impI)
  assume "map_of (doc_of (applicants_json s)) discordId = None"
  then show "acceptApplicant now s (str discordId) = s"
    by (simp add: acceptApplicant_def fst_loadJSON to_key_def js_truthy_def Let_def)
next
  assume "map_of (doc_of (applicants_json s)) discordId = Some entry \<and>
    \<not> js_truthy (js_get (Some entry) ''accepted'')"
  then show "acceptApplicant now s (str discordId) = s"
    by (simp add: acceptApplicant_def fst_loadJSON to_key_def Let_def)
next
  let ?s' = "acceptApplicant now s (str discordId)"
  assume a: "map_of (doc_of (applicants_json s)) discordId = Some (JObj r) \<and>
    map_of r ''accepted'' = Some (JBool True) \<and>
    map_of r ''server'' = Some (JStr server) \<and> \<not> inherited server \<and>
    (map_of (doc_of (clans_json s)) server = Some (JObj c) \<and>
       map_of c ''name'' = Some (JStr clan) \<and> clan \<noteq> [] \<or>
     map_of (doc_of (clans_json s)) server = None \<and> clan = ''Unknown'') \<and>
    1 \<le> getDate now \<and> getDate now \<le> 31 \<and> getMonth now \<le> 11 \<and>
    1000 \<le> getFullYear now \<and> getFullYear now \<le> 9999"
  then have rec: "map_of (doc_of (applicants_json s)) discordId = Some (JObj r)"
    and acc: "map_of r ''accepted'' = Some (JBool True)"
    and srv: "map_of r ''server'' = Some (JStr server)"
    and cl: "map_of (doc_of (clans_json s)) server = Some (JObj c) \<and>
               map_of c ''name'' = Some (JStr clan) \<and> clan \<noteq> [] \<or>
             map_of (doc_of (clans_json s)) server = None \<and> clan = ''Unknown''"
    and day: "getDate now < 100" "getMonth now < 12" "1000 \<le> getFullYear now"
      "getFullYear now < 10000"
    by simp_all
  have clan: "or_else (js_get (map_of (doc_of (clans_json s)) server) ''name'')
                (JStr ''Unknown'') = JStr clan"
    using cl by (elim disjE conjE) (simp_all add: or_else_def js_get_def)
  have entry: "memberEntry now (str discordId) (Some (JObj r)) (doc_of (clans_json s)) =
           JObj [(''discordId'', JStr discordId),
                 (''discordUser'', or_else (map_of r ''discordUser'') (JStr [])),
                 (''minecraftUser'', or_else (map_of r ''minecraftUser'') (JStr [])),
                 (''minecraftVersion'', or_else (map_of r ''minecraftVersion'') (JStr [])),
                 (''JoinedClan'', JStr clan),
                 (''JoinDate'', JStr (formatDate now)),
                 (''YazanakiRank'', JStr []), (''EmpireID'', JStr []), (''Status'', JStr [])]"
    by (simp add: memberEntry_def Let_def js_field_def js_get_obj srv to_key_def clan)
  have eq: "?s' = s\<lparr>members_json := Some (Doc (AList.update discordId
             (memberEntry now (str discordId) (Some (JObj r)) (doc_of (clans_json s)))
             (doc_of (members_json s))))\<rparr>"
    using rec acc
    by (simp add: acceptApplicant_def fst_loadJSON to_key_def Let_def js_truthy_def js_get_def
        saveJSON_def writeFileSync_def del: AList.update.simps)
  show "linking_json ?s' = linking_json s" by (simp add: eq)
  show "applicants_json ?s' = applicants_json s" by (simp add: eq)
  show "clans_json ?s' = clans_json s" by (simp add: eq)
  show "cache_json ?s' = cache_json s" by (simp add: eq)
  have "map_of (doc_of (members_json ?s')) =
          (map_of (doc_of (members_json s)))(discordId \<mapsto>
             memberEntry now (str discordId) (Some (JObj r)) (doc_of (clans_json s)))"
    by (simp add: eq doc_of_def update_conv' del: AList.update.simps)
  then show "map_of (doc_of (members_json ?s')) =
        (map_of (doc_of (members_json s)))(discordId \<mapsto>
           JObj [(''discordId'', JStr discordId),
                 (''discordUser'', or_else (map_of r ''discordUser'') (JStr [])),
                 (''minecraftUser'', or_else (map_of r ''minecraftUser'') (JStr [])),
                 (''minecraftVersion'', or_else (map_of r ''minecraftVersion'') (JStr [])),
                 (''JoinedClan'', JStr clan),
                 (''JoinDate'', JStr
                    [char_of (48 + getDate now div 10), char_of (48 + getDate now mod 10),
                     CHR ''.'',
                     char_of (48 + (getMonth now + 1) div 10),
                     char_of (48 + (getMonth now + 1) mod 10),
                     CHR ''.'',
                     char_of (48 + getFullYear now div 1000),
                     char_of (48 + getFullYear now div 100 mod 10),
                     char_of (48 + getFullYear now div 10 mod 10),
                     char_of (48 + getFullYear now mod 10)]),
                 (''YazanakiRank'', JStr []), (''EmpireID'', JStr []), (''Status'', JStr [])])"
    by (simp only: entry formatDate_digits[OF day])
qed

theorem acceptApplicant_promotes_witness:
  "acceptApplicant promotion_day roster (str ''300'') = roster \<and>
   acceptApplicant promotion_day roster (str ''200'') = roster \<and>
   map_of (doc_of (members_json (acceptApplicant promotion_day roster (str ''100'')))) ''100'' =
     Some (JObj [(''discordId'', JStr ''100''), (''discordUser'', JStr ''steve#0001''),
                 (''minecraftUser'', JStr ''Steve''), (''minecraftVersion'', JStr ''Java''),
                 (''JoinedClan'', JStr ''Yazanaki''), (''JoinDate'', JStr ''09.03.2025''),
                 (''YazanakiRank'', JStr []), (''EmpireID'', JStr []), (''Status'', JStr [])]) \<and>
   map_of (doc_of (members_json (acceptApplicant christmas_day roster (str ''400'')))) ''400'' =
     Some (JObj [(''discordId'', JStr ''400''), (''discordUser'', JStr ''sam#0004''),
                 (''minecraftUser'', JStr ''Sam''), (''minecraftVersion'', JStr ''Java''),
                 (''JoinedClan'', JStr ''Unknown''), (''JoinDate'', JStr ''25.12.2031''),
                 (''YazanakiRank'', JStr []), (''EmpireID'', JStr []), (''Status'', JStr [])]) \<and>
   map_of (doc_of (members_json (acceptApplicant christmas_day roster (str ''400'')))) ''100'' =
     Some (JObj [(''discordId'', JStr ''100''), (''JoinedClan'', JStr ''Old Clan''),
                 (''YazanakiRank'', JStr ''Officer'')])"
proof -
  have i1: "\<not> inherited ''100''" and i2: "\<not> inherited ''200''" and i3: "\<not> inherited ''300''"
    and i4: "\<not> inherited ''400''"
    by (simp_all add: inherited_def)
  have h1: "map_of (doc_of (applicants_json roster)) ''300'' = None"
    by code_simp
  have h2: "map_of (doc_of (applicants_json roster)) ''200'' = Some alex_pending \<and>
            \<not> js_truthy (js_get (Some alex_pending) ''accepted'')"
    by code_simp
  let ?steve = "[(''discordId'', JStr ''100''), (''discordUser'', JStr ''steve#0001''),
           (''minecraftUser'', JStr ''Steve''), (''minecraftUserKey'', JStr ''steve''),
           (''minecraftVersion'', JStr ''Java''), (''timezone'', JStr ''GMT''),
           (''previousGroups'', JStr ''none''), (''reason'', JStr ''friends''),
           (''openedAt'', JStr ''2025-03-01T09:00:00.000Z''), (''server'', JStr ''7''),
           (''accepted'', JBool True), (''closeReason'', JNull),
           (''closedAt'', JStr ''2025-03-08T09:00:00.000Z'')]"
  let ?sam = "[(''discordId'', JStr ''400''), (''discordUser'', JStr ''sam#0004''),
           (''minecraftUser'', JStr ''Sam''), (''minecraftUserKey'', JStr ''sam''),
           (''minecraftVersion'', JStr ''Java''), (''timezone'', JNull),
           (''previousGroups'', JNull), (''reason'', JNull),
           (''openedAt'', JStr ''2025-03-03T09:00:00.000Z''), (''server'', JStr ''9''),
           (''accepted'', JBool True), (''closeReason'', JNull),
           (''closedAt'', JStr ''2025-03-08T10:00:00.000Z'')]"
  let ?yaz = "[(''abbr'', JStr ''YAZ''), (''name'', JStr ''Yazanaki'')]"
  have h3: "map_of (doc_of (applicants_json roster)) ''100'' = Some (JObj ?steve) \<and>
    map_of ?steve ''accepted'' = Some (JBool True) \<and>
    map_of ?steve ''server'' = Some (JStr ''7'') \<and> \<not> inherited ''7'' \<and>
    (map_of (doc_of (clans_json roster)) ''7'' = Some (JObj ?yaz) \<and>
       map_of ?yaz ''name'' = Some (JStr ''Yazanaki'') \<and> ''Yazanaki'' \<noteq> [] \<or>
     map_of (doc_of (clans_json roster)) ''7'' = None \<and> ''Yazanaki'' = ''Unknown'') \<and>
    1 \<le> getDate promotion_day \<and> getDate promotion_day \<le> 31 \<and> getMonth promotion_day \<le> 11 \<and>
    1000 \<le> getFullYear promotion_day \<and> getFullYear promotion_day \<le> 9999"
    by code_simp
  have h4: "map_of (doc_of (applicants_json roster)) ''400'' = Some (JObj ?sam) \<and>
    map_of ?sam ''accepted'' = Some (JBool True) \<and>
    map_of ?sam ''server'' = Some (JStr ''9'') \<and> \<not> inherited ''9'' \<and>
    (map_of (doc_of (clans_json roster)) ''9'' = Some (JObj []) \<and>
       map_of [] ''name'' = Some (JStr ''Unknown'') \<and> ''Unknown'' \<noteq> [] \<or>
     map_of (doc_of (clans_json roster)) ''9'' = None \<and> ''Unknown'' = ''Unknown'') \<and>
    1 \<le> getDate christmas_day \<and> getDate christmas_day \<le> 31 \<and> getMonth christmas_day \<le> 11 \<and>
    1000 \<le> getFullYear christmas_day \<and> getFullYear christmas_day \<le> 9999"
    by code_simp
  have d1: "[char_of (48 + getDate promotion_day div 10),
             char_of (48 + getDate promotion_day mod 10), CHR ''.'',
             char_of (48 + (getMonth promotion_day + 1) div 10),
             char_of (48 + (getMonth promotion_day + 1) mod 10), CHR ''.'',
             char_of (48 + getFullYear promotion_day div 1000),
             char_of (48 + getFullYear promotion_day div 100 mod 10),
             char_of (48 + getFullYear promotion_day div 10 mod 10),
             char_of (48 + getFullYear promotion_day mod 10)] = ''09.03.2025''"
    by code_simp
  have d2: "[char_of (48 + getDate christmas_day div 10),
             char_of (48 + getDate christmas_day mod 10), CHR ''.'',
             char_of (48 + (getMonth christmas_day + 1) div 10),
             char_of (48 + (getMonth christmas_day + 1) mod 10), CHR ''.'',
             char_of (48 + getFullYear christmas_day div 1000),
             char_of (48 + getFullYear christmas_day div 100 mod 10),
             char_of (48 + getFullYear christmas_day div 10 mod 10),
             char_of (48 + getFullYear christmas_day mod 10)] = ''25.12.2031''"
    by code_simp
  have o1: "or_else (map_of ?steve ''discordUser'') (JStr []) = JStr ''steve#0001''"
    "or_else (map_of ?steve ''minecraftUser'') (JStr []) = JStr ''Steve''"
    "or_else (map_of ?steve ''minecraftVersion'') (JStr []) = JStr ''Java''"
    by code_simp+
  have o2: "or_else (map_of ?sam ''discordUser'') (JStr []) = JStr ''sam#0004''"
    "or_else (map_of ?sam ''minecraftUser'') (JStr []) = JStr ''Sam''"
    "or_else (map_of ?sam ''minecraftVersion'') (JStr []) = JStr ''Java''"
    by code_simp+
  have old: "map_of (doc_of (members_json roster)) ''100'' =
     Some (JObj [(''discordId'', JStr ''100''), (''JoinedClan'', JStr ''Old Clan''),
                 (''YazanakiRank'', JStr ''Officer'')])"
    by code_simp
  note missing = acceptApplicant_promotes[OF i3, where s = roster and now = promotion_day,
      THEN conjunct1, rule_format, OF h1]
  note pending = acceptApplicant_promotes[OF i2, where s = roster and now = promotion_day
      and entry = alex_pending, THEN conjunct2, THEN conjunct1, rule_format, OF h2]
  note steve = acceptApplicant_promotes[OF i1, where s = roster and now = promotion_day
      and r = ?steve and server = "''7''" and c = ?yaz and clan = "''Yazanaki''",
      THEN conjunct2, THEN conjunct2, rule_format, OF h3, unfolded d1 o1]
  note sam = acceptApplicant_promotes[OF i4, where s = roster and now = christmas_day
      and r = ?sam and server = "''9''" and c = "[]" and clan = "''Unknown''",
      THEN conjunct2, THEN conjunct2, rule_format, OF h4, unfolded d2 o2]
  have m1: "map_of (doc_of (members_json (acceptApplicant promotion_day roster (str ''100'')))) =
     (map_of (doc_of (members_json roster)))(''100'' \<mapsto>
        JObj [(''discordId'', JStr ''100''), (''discordUser'', JStr ''steve#0001''),
                 (''minecraftUser'', JStr ''Steve''), (''minecraftVersion'', JStr ''Java''),
                 (''JoinedClan'', JStr ''Yazanaki''), (''JoinDate'', JStr ''09.03.2025''),
                 (''YazanakiRank'', JStr []), (''EmpireID'', JStr []), (''Status'', JStr [])])"
    using steve by (elim conjE) assumption
  have m2: "map_of (doc_of (members_json (acceptApplicant christmas_day roster (str ''400'')))) =
     (map_of (doc_of (members_json roster)))(''400'' \<mapsto>
        JObj [(''discordId'', JStr ''400''), (''discordUser'', JStr ''sam#0004''),
                 (''minecraftUser'', JStr ''Sam''), (''minecraftVersion'', JStr ''Java''),
                 (''JoinedClan'', JStr ''Unknown''), (''JoinDate'', JStr ''25.12.2031''),
                 (''YazanakiRank'', JStr []), (''EmpireID'', JStr []), (''Status'', JStr [])])"
    using sam by (elim conjE) assumption
  have a: "map_of (doc_of (members_json (acceptApplicant promotion_day roster (str ''100''))))
             ''100'' =
     Some (JObj [(''discordId'', JStr ''100''), (''discordUser'', JStr ''steve#0001''),
                 (''minecraftUser'', JStr ''Steve''), (''minecraftVersion'', JStr ''Java''),
                 (''JoinedClan'', JStr ''Yazanaki''), (''JoinDate'', JStr ''09.03.2025''),
                 (''YazanakiRank'', JStr []), (''EmpireID'', JStr []), (''Status'', JStr [])])"
    by (simp only: m1 fun_upd_same)
  have b: "map_of (doc_of (members_json (acceptApplicant christmas_day roster (str ''400''))))
             ''400'' =
     Some (JObj [(''discordId'', JStr ''400''), (''discordUser'', JStr ''sam#0004''),
                 (''minecraftUser'', JStr ''Sam''), (''minecraftVersion'', JStr ''Java''),
                 (''JoinedClan'', JStr ''Unknown''), (''JoinDate'', JStr ''25.12.2031''),
                 (''YazanakiRank'', JStr []), (''EmpireID'', JStr []), (''Status'', JStr [])])"
    by (simp only: m2 fun_upd_same)
  have ne: "''100'' \<noteq> ''400''" by simp
  have c: "map_of (doc_of (members_json (acceptApplicant christmas_day roster (str ''400''))))
             ''100'' =
     Some (JObj [(''discordId'', JStr ''100''), (''JoinedClan'', JStr ''Old Clan''),
                 (''YazanakiRank'', JStr ''Officer'')])"
    by (simp only: m2 fun_upd_other[OF ne] old)
  show ?thesis
    by (intro conjI) (rule missing, rule pending, rule a, rule b, rule c)
qed

subsection \<open>Applicant records\<close>

lemma saveApplicant_entry:
  "fst (saveApplicant now s discordId applicantData serverId closeReason accepted closedAt) =
     JObj (applicantRecord now discordId applicantData serverId closeReason accepted closedAt)"
  by (simp add: saveApplicant_def Let_def)

lemma toLowerCase_Nil: "(toLowerCase u = []) = (u = [])"
  by (simp add: toLowerCase_def)

lemma applicantRecord_key:
  assumes "js_get (Some (JObj (applicantRecord now discordId applicantData serverId closeReason
                                 accepted closedAt))) ''minecraftUser'' = str u"
  shows "js_get (Some (JObj (applicantRecord now discordId applicantData serverId closeReason
                               accepted closedAt))) ''minecraftUserKey'' = str (toLowerCase u)"
proof -
  let ?orig = "or_else (js_or (map_of applicantData ''minecraftUser'')
                           (map_of applicantData ''minecraftName'')) (JStr [])"
  from assms have stored: "or_null (Some ?orig) = JStr u"
    by (simp add: applicantRecord_def js_get_skip_field Let_def)
  then have "truthy ?orig"
    using truthy_or_null[of "Some ?orig"] or_null_eq_JNull[of "Some ?orig"]
    by (auto simp: js_truthy_def)
  with stored have orig: "?orig = JStr u" and u: "u \<noteq> []"
    by (auto simp: or_null_truthy)
  show ?thesis
    using u by (simp add: applicantRecord_def js_get_skip_field Let_def orig or_null_truthy
        toLowerCase_Nil)
qed

lemma applicantRecord_no_key:
  assumes "js_get (Some (JObj (applicantRecord now discordId applicantData serverId closeReason
                                 accepted closedAt))) ''minecraftUser'' = Some JNull"
  shows "js_get (Some (JObj (applicantRecord now discordId applicantData serverId closeReason
                               accepted closedAt))) ''minecraftUserKey'' = Some JNull"
proof -
  let ?orig = "or_else (js_or (map_of applicantData ''minecraftUser'')
                           (map_of applicantData ''minecraftName'')) (JStr [])"
  from assms have "or_null (Some ?orig) = JNull"
    by (simp add: applicantRecord_def js_get_skip_field Let_def)
  then have "\<not> truthy ?orig"
    by (simp add: or_null_eq_JNull js_truthy_def)
  then show ?thesis
    by (simp add: applicantRecord_def js_get_skip_field Let_def or_null_def or_else_def)
qed

lemma or_null_or_else_empty: "or_null (Some (or_else v (JStr []))) = or_null v"
  by (cases v) (simp_all add: or_null_def or_else_def)

lemma fst_loadApplicants: "fst (loadApplicants f) = doc_of f"
proof (cases f)
  case None
  then show ?thesis by (simp add: loadApplicants_cases doc_of_def)
next
  case (Some raw)
  then show ?thesis by (cases raw) (simp_all add: loadApplicants_cases doc_of_def)
qed

lemma saveApplicant_state:
  "snd (saveApplicant now s (str discordId) applicantData serverId closeReason accepted closedAt) =
     s\<lparr>applicants_json := Some (Doc (AList.update discordId
          (fst (saveApplicant now s (str discordId) applicantData serverId closeReason accepted
                  closedAt))
          (doc_of (applicants_json s))))\<rparr>"
  by (simp add: saveApplicant_def Let_def fst_loadApplicants to_key_def saveApplicants_def
      writeFileSync_def del: AList.update.simps)

text \<open>
  C4, as stated, fails: a field of the existing record that the caller does not
  supply does not keep its value. The record of applicant 100 holds the timezone
  \<open>GMT\<close>, previous groups and the server 7; after a save that supplies only
  \<open>minecraftUser\<close> all three are \<open>null\<close>.
\<close>

theorem saveApplicant_merge_counterexample:
  "js_get (Some (getApplicant roster (str ''100''))) ''timezone'' = str ''GMT'' \<and>
   js_get (Some (getApplicant (snd partial_update) (str ''100''))) ''timezone'' = Some JNull \<and>
   js_get (Some (getApplicant roster (str ''100''))) ''previousGroups'' = str ''none'' \<and>
   js_get (Some (getApplicant (snd partial_update) (str ''100''))) ''previousGroups'' =
     Some JNull \<and>
   js_get (Some (getApplicant roster (str ''100''))) ''server'' = str ''7'' \<and>
   js_get (Some (getApplicant (snd partial_update) (str ''100''))) ''server'' = Some JNull"
  by code_simp

text \<open>
  C4, amended. For every \<open>discordId\<close> that is not the name of a member of
  \<open>Object.prototype\<close>, \<open>saveApplicant\<close> replaces the record of \<open>discordId\<close>, keeps every
  other record and is what \<open>getApplicant\<close> then returns. Every field of the new
  record other than \<open>openedAt\<close> is built from the supplied fields and arguments
  alone: a field the caller does not supply (for \<open>discordUser\<close> and \<open>minecraftUser\<close>:
  under neither of its two names; for \<open>server\<close>, \<open>closeReason\<close> and \<open>closedAt\<close>:
  neither as argument nor as field) is stored as \<open>null\<close>, and \<open>accepted\<close> is the
  boolean of the argument. \<open>minecraftUserKey\<close> is the lowercase of the stored
  \<open>minecraftUser\<close> (an ASCII string), and \<open>null\<close> when that is \<open>null\<close>. A supplied
  \<open>openedAt\<close> is kept, and the first save for a \<open>discordId\<close>, if it supplies none,
  stamps \<open>openedAt\<close> with the current time.
\<close>

theorem saveApplicant_full_replace:
  assumes "\<not> inherited discordId"
  shows
  "getApplicant (snd (saveApplicant now s (str discordId) applicantData serverId closeReason
                        accepted closedAt)) (str discordId) =
     fst (saveApplicant now s (str discordId) applicantData serverId closeReason accepted
            closedAt) \<and>
   map_of (doc_of (applicants_json (snd (saveApplicant now s (str discordId) applicantData
                                           serverId closeReason accepted closedAt)))) =
     (map_of (doc_of (applicants_json s)))(discordId \<mapsto>
        fst (saveApplicant now s (str discordId) applicantData serverId closeReason accepted
               closedAt)) \<and>
   js_get (Some (fst (saveApplicant now s (str discordId) applicantData serverId closeReason
                        accepted closedAt))) ''discordId'' = str discordId \<and>
   js_get (Some (fst (saveApplicant now s (str discordId) applicantData serverId closeReason
                        accepted closedAt))) ''discordUser'' =
     Some (or_null (js_or (map_of applicantData ''discordUser'')
                          (map_of applicantData ''discordTag''))) \<and>
   js_get (Some (fst (saveApplicant now s (str discordId) applicantData serverId closeReason
                        accepted closedAt))) ''minecraftUser'' =
     Some (or_null (js_or (map_of applicantData ''minecraftUser'')
                          (map_of applicantData ''minecraftName''))) \<and>
   js_get (Some (fst (saveApplicant now s (str discordId) applicantData serverId closeReason
                        accepted closedAt))) ''minecraftVersion'' =
     Some (nullish (map_of applicantData ''minecraftVersion'') JNull) \<and>
   js_get (Some (fst (saveApplicant now s (str discordId) applicantData serverId closeReason
                        accepted closedAt))) ''timezone'' =
     Some (or_null (map_of applicantData ''timezone'')) \<and>
   js_get (Some (fst (saveApplicant now s (str discordId) applicantData serverId closeReason
                        accepted closedAt))) ''previousGroups'' =
     Some (or_null (map_of applicantData ''previousGroups'')) \<and>
   js_get (Some (fst (saveApplicant now s (str discordId) applicantData serverId closeReason
                        accepted closedAt))) ''reason'' =
     Some (or_null (map_of applicantData ''reason'')) \<and>
   js_get (Some (fst (saveApplicant now s (str discordId) applicantData serverId closeReason
                        accepted closedAt))) ''server'' =
     Some (or_null (js_or serverId (map_of applicantData ''server''))) \<and>
   js_get (Some (fst (saveApplicant now s (str discordId) applicantData serverId closeReason
                        accepted closedAt))) ''accepted'' =
     Some (JBool (js_truthy accepted)) \<and>
   js_get (Some (fst (saveApplicant now s (str discordId) applicantData serverId closeReason
                        accepted closedAt))) ''closeReason'' =
     Some (or_null (js_or closeReason (map_of applicantData ''closeReason''))) \<and>
   js_get (Some (fst (saveApplicant now s (str discordId) applicantData serverId closeReason
                        accepted closedAt))) ''closedAt'' =
     Some (or_null (js_or closedAt (map_of applicantData ''closedAt''))) \<and>
   (js_get (Some (fst (saveApplicant now s (str discordId) applicantData serverId closeReason
                         accepted closedAt))) ''minecraftUser'' = str u \<and> ascii_string u \<longrightarrow>
    js_get (Some (fst (saveApplicant now s (str discordId) applicantData serverId closeReason
                         accepted closedAt))) ''minecraftUserKey'' = str (toLowerCase u)) \<and>
   (js_get (Some (fst (saveApplicant now s (str discordId) applicantData serverId closeReason
                         accepted closedAt))) ''minecraftUser'' = Some JNull \<longrightarrow>
    js_get (Some (fst (saveApplicant now s (str discordId) applicantData serverId closeReason
                         accepted closedAt))) ''minecraftUserKey'' = Some JNull) \<and>
   (map_of applicantData ''openedAt'' = str opened_at \<and> opened_at \<noteq> [] \<longrightarrow>
    js_get (Some (fst (saveApplicant now s (str discordId) applicantData serverId closeReason
                         accepted closedAt))) ''openedAt'' = str opened_at) \<and>
   (map_of (doc_of (applicants_json s)) discordId = None \<and>
    map_of applicantData ''openedAt'' = None \<longrightarrow>
    js_get (Some (fst (saveApplicant now s (str discordId) applicantData serverId closeReason
                         accepted closedAt))) ''openedAt'' = str now)"
proof -
  let ?e = "fst (saveApplicant now s (str discordId) applicantData serverId closeReason accepted
                   closedAt)"
  let ?s' = "snd (saveApplicant now s (str discordId) applicantData serverId closeReason accepted
                    closedAt)"
  have e: "?e = JObj (applicantRecord now (str discordId) applicantData serverId closeReason
                        accepted closedAt)"
    by (rule saveApplicant_entry)
  have st: "doc_of (applicants_json ?s') = AList.update discordId ?e (doc_of (applicants_json s))"
    by (simp add: saveApplicant_state doc_of_def del: AList.update.simps)
  have m: "map_of (doc_of (applicants_json ?s')) =
             (map_of (doc_of (applicants_json s)))(discordId \<mapsto> ?e)"
    by (simp only: st update_conv')
  have "truthy ?e" by (simp add: e)
  then have g: "getApplicant ?s' (str discordId) = ?e"
    by (simp add: getApplicant_def fst_loadApplicants to_key_def m or_null_truthy)
  have f0: "js_get (Some ?e) ''discordId'' = str discordId"
    by (simp add: e applicantRecord_def js_get_obj js_field_def Let_def)
  have f1: "js_get (Some ?e) ''discordUser'' =
     Some (or_null (js_or (map_of applicantData ''discordUser'')
                          (map_of applicantData ''discordTag'')))"
    by (simp add: e applicantRecord_def js_get_skip_field Let_def)
  have f2: "js_get (Some ?e) ''minecraftUser'' =
     Some (or_null (js_or (map_of applicantData ''minecraftUser'')
                          (map_of applicantData ''minecraftName'')))"
    by (simp add: e applicantRecord_def js_get_skip_field Let_def or_null_or_else_empty)
  have f3: "js_get (Some ?e) ''minecraftVersion'' =
     Some (nullish (map_of applicantData ''minecraftVersion'') JNull)"
    by (simp add: e applicantRecord_def js_get_skip_field Let_def)
  have f4: "js_get (Some ?e) ''timezone'' = Some (or_null (map_of applicantData ''timezone''))"
    by (simp add: e applicantRecord_def js_get_skip_field Let_def)
  have f5: "js_get (Some ?e) ''previousGroups'' =
     Some (or_null (map_of applicantData ''previousGroups''))"
    by (simp add: e applicantRecord_def js_get_skip_field Let_def)
  have f6: "js_get (Some ?e) ''reason'' = Some (or_null (map_of applicantData ''reason''))"
    by (simp add: e applicantRecord_def js_get_skip_field Let_def)
  have f7: "js_get (Some ?e) ''server'' =
     Some (or_null (js_or serverId (map_of applicantData ''server'')))"
    by (simp add: e applicantRecord_def js_get_skip_field Let_def)
  have f8: "js_get (Some ?e) ''accepted'' = Some (JBool (js_truthy accepted))"
    by (simp add: e applicantRecord_def js_get_skip_field Let_def)
  have f9: "js_get (Some ?e) ''closeReason'' =
     Some (or_null (js_or closeReason (map_of applicantData ''closeReason'')))"
    by (simp add: e applicantRecord_def js_get_skip_field Let_def)
  have f10: "js_get (Some ?e) ''closedAt'' =
     Some (or_null (js_or closedAt (map_of applicantData ''closedAt'')))"
    by (simp add: e applicantRecord_def js_get_skip_field Let_def)
  have k1: "js_get (Some ?e) ''minecraftUser'' = str u \<and> ascii_string u \<longrightarrow>
            js_get (Some ?e) ''minecraftUserKey'' = str (toLowerCase u)"
    unfolding e by (blast intro: applicantRecord_key)
  have k2: "js_get (Some ?e) ''minecraftUser'' = Some JNull \<longrightarrow>
            js_get (Some ?e) ''minecraftUserKey'' = Some JNull"
    unfolding e by (blast intro: applicantRecord_no_key)
  have o: "js_get (Some ?e) ''openedAt'' =
             Some (or_else (map_of applicantData ''openedAt'') (JStr now))"
    by (simp add: e applicantRecord_def js_get_skip_field Let_def)
  have o1: "map_of applicantData ''openedAt'' = str opened_at \<and> opened_at \<noteq> [] \<longrightarrow>
            js_get (Some ?e) ''openedAt'' = str opened_at"
    by (simp add: o or_else_def)
  have o2: "map_of (doc_of (applicants_json s)) discordId = None \<and>
            map_of applicantData ''openedAt'' = None \<longrightarrow>
            js_get (Some ?e) ''openedAt'' = str now"
    by (simp add: o or_else_def)
  show ?thesis
    by (intro conjI)
       (rule g, rule m, rule f0, rule f1, rule f2, rule f3, rule f4, rule f5, rule f6, rule f7,
        rule f8, rule f9, rule f10, rule k1, rule k2, rule o1, rule o2)
qed

theorem saveApplicant_full_replace_witness:
  "getApplicant (snd partial_update) (str ''100'') = fst partial_update \<and>
   map_of (doc_of (applicants_json (snd partial_update))) ''200'' = Some alex_pending \<and>
   js_get (Some (fst partial_update)) ''discordUser'' = Some JNull \<and>
   js_get (Some (fst partial_update)) ''minecraftUser'' = str ''Steve'' \<and>
   js_get (Some (fst partial_update)) ''minecraftUserKey'' = str ''steve'' \<and>
   js_get (Some (fst partial_update)) ''minecraftVersion'' = Some JNull \<and>
   js_get (Some (fst partial_update)) ''timezone'' = Some JNull \<and>
   js_get (Some (fst partial_update)) ''previousGroups'' = Some JNull \<and>
   js_get (Some (fst partial_update)) ''reason'' = Some JNull \<and>
   js_get (Some (fst partial_update)) ''server'' = Some JNull \<and>
   js_get (Some (fst partial_update)) ''accepted'' = Some (JBool False) \<and>
   js_get (Some (fst partial_update)) ''closeReason'' = Some JNull \<and>
   js_get (Some (fst partial_update)) ''closedAt'' = Some JNull \<and>
   js_get (Some (fst first_save)) ''discordId'' = str ''600'' \<and>
   js_get (Some (fst first_save)) ''discordUser'' = str ''kit#0006'' \<and>
   js_get (Some (fst first_save)) ''minecraftUserKey'' = str ''kitkat'' \<and>
   js_get (Some (fst first_save)) ''timezone'' = str ''CET'' \<and>
   js_get (Some (fst first_save)) ''server'' = str ''7'' \<and>
   js_get (Some (fst first_save)) ''openedAt'' = str ''2025-04-01T12:00:00.000Z'' \<and>
   js_get (Some (fst carried_save)) ''discordUser'' = str ''steve#0001'' \<and>
   js_get (Some (fst carried_save)) ''minecraftUser'' = str ''Steve'' \<and>
   js_get (Some (fst carried_save)) ''closeReason'' = str ''inactive'' \<and>
   js_get (Some (fst carried_save)) ''closedAt'' = str ''2025-04-01T12:00:00.000Z'' \<and>
   js_get (Some (fst carried_save)) ''openedAt'' = str ''2025-03-01T09:00:00.000Z''"
proof -
  have i1: "\<not> inherited ''100''" and i6: "\<not> inherited ''600''"
    by (simp_all add: inherited_def)
  note ev = or_null_def or_else_def js_or_def js_truthy_def nullish_def
  note p = saveApplicant_full_replace[OF i1, where now = "''2025-04-01T12:00:00.000Z''"
      and s = roster and applicantData = "[(''minecraftUser'', JStr ''Steve'')]"
      and serverId = "Some JNull" and closeReason = "Some JNull"
      and accepted = "Some (JBool False)" and closedAt = "Some JNull" and u = "''Steve''",
      folded partial_update_def]
  note f = saveApplicant_full_replace[OF i6, where now = "''2025-04-01T12:00:00.000Z''"
      and s = roster
      and applicantData = "[(''discordUser'', JStr ''kit#0006''), (''minecraftUser'', JStr ''KitKat''),
        (''minecraftVersion'', JStr ''Java''), (''timezone'', JStr ''CET'')]"
      and serverId = "str ''7''" and closeReason = "Some JNull"
      and accepted = "Some (JBool False)" and closedAt = "Some JNull" and u = "''KitKat''",
      folded first_save_def]
  note c = saveApplicant_full_replace[OF i1, where now = "''2025-04-01T12:00:00.000Z''"
      and s = roster
      and applicantData = "[(''discordTag'', JStr ''steve#0001''), (''minecraftName'', JStr ''Steve''),
        (''openedAt'', JStr ''2025-03-01T09:00:00.000Z'')]"
      and serverId = "Some JNull" and closeReason = "str ''inactive''"
      and accepted = "Some (JBool False)" and closedAt = "str ''2025-04-01T12:00:00.000Z''"
      and opened_at = "''2025-03-01T09:00:00.000Z''",
      folded carried_save_def]
  have lc: "toLowerCase ''Steve'' = ''steve''" "toLowerCase ''KitKat'' = ''kitkat''"
    by code_simp+
  have asc: "ascii_string ''Steve''" "ascii_string ''KitKat''"
    by code_simp+
  have other: "((map_of (doc_of (applicants_json roster)))(''100'' \<mapsto> fst partial_update)) ''200'' =
                 Some alex_pending"
    by (simp add: roster_def doc_of_def)
  have new: "map_of (doc_of (applicants_json roster)) ''600'' = None"
    by (simp add: roster_def doc_of_def)
  have p1: "getApplicant (snd partial_update) (str ''100'') = fst partial_update"
    by (rule p[THEN conjunct1])
  have p2: "map_of (doc_of (applicants_json (snd partial_update))) ''200'' = Some alex_pending"
    using p[THEN conjunct2, THEN conjunct1] other by simp
  have pf: "js_get (Some (fst partial_update)) ''discordUser'' = Some JNull"
    "js_get (Some (fst partial_update)) ''minecraftUser'' = str ''Steve''"
    "js_get (Some (fst partial_update)) ''minecraftVersion'' = Some JNull"
    "js_get (Some (fst partial_update)) ''timezone'' = Some JNull"
    "js_get (Some (fst partial_update)) ''previousGroups'' = Some JNull"
    "js_get (Some (fst partial_update)) ''reason'' = Some JNull"
    "js_get (Some (fst partial_update)) ''server'' = Some JNull"
    "js_get (Some (fst partial_update)) ''accepted'' = Some (JBool False)"
    "js_get (Some (fst partial_update)) ''closeReason'' = Some JNull"
    "js_get (Some (fst partial_update)) ''closedAt'' = Some JNull"
    using p by (simp_all add: ev)
  have pk: "js_get (Some (fst partial_update)) ''minecraftUserKey'' = str ''steve''"
    using p pf(2) asc(1) by (simp add: lc)
  have ff: "js_get (Some (fst first_save)) ''discordId'' = str ''600''"
    "js_get (Some (fst first_save)) ''discordUser'' = str ''kit#0006''"
    "js_get (Some (fst first_save)) ''minecraftUser'' = str ''KitKat''"
    "js_get (Some (fst first_save)) ''timezone'' = str ''CET''"
    "js_get (Some (fst first_save)) ''server'' = str ''7''"
    using f by (simp_all add: ev)
  have fk: "js_get (Some (fst first_save)) ''minecraftUserKey'' = str ''kitkat''"
    using f ff(3) asc(2) by (simp add: lc)
  have fo: "js_get (Some (fst first_save)) ''openedAt'' = str ''2025-04-01T12:00:00.000Z''"
    using f new by simp
  have cf: "js_get (Some (fst carried_save)) ''discordUser'' = str ''steve#0001''"
    "js_get (Some (fst carried_save)) ''minecraftUser'' = str ''Steve''"
    "js_get (Some (fst carried_save)) ''closeReason'' = str ''inactive''"
    "js_get (Some (fst carried_save)) ''closedAt'' = str ''2025-04-01T12:00:00.000Z''"
    "js_get (Some (fst carried_save)) ''openedAt'' = str ''2025-03-01T09:00:00.000Z''"
    using c by (simp_all add: ev)
  show ?thesis
    by (intro conjI)
       (rule p1, rule p2, rule pf(1), rule pf(2), rule pk, rule pf(3), rule pf(4), rule pf(5),
        rule pf(6), rule pf(7), rule pf(8), rule pf(9), rule pf(10),
        rule ff(1), rule ff(2), rule fk, rule ff(4), rule ff(5), rule fo,
        rule cf(1), rule cf(2), rule cf(3), rule cf(4), rule cf(5))
qed

subsection \<open>Identity links\<close>

lemma update_absent: "map_of ps k = None \<Longrightarrow> AList.update k v ps = ps @ [(k, v)]"
  by (induction ps) (auto split: if_splits)

lemma ensureDataFile_nonempty:
  assumes "fst (ensureDataFile f) \<noteq> []"
  shows "snd (ensureDataFile f) = f"
proof (cases f)
  case None
  with assms show ?thesis by (simp add: ensureDataFile_cases)
next
  case (Some raw)
  with assms show ?thesis by (cases raw) (simp_all add: ensureDataFile_cases)
qed

lemma usernameTaken_ok:
  "link_store_ok data \<Longrightarrow>
   usernameTaken key (map snd data) =
     Inr (list_ex (\<lambda>v. minecraftUser_key v = Inr key) (map snd data))"
proof (induction data)
  case Nil
  then show ?case by simp
next
  case (Cons p data)
  then obtain u where "js_get (Some (snd p)) ''minecraftUser'' = str u"
    by (auto simp: link_store_ok_def is_link_record_def split: option.splits json.splits)
  then have "minecraftUser_key (snd p) = Inr (toLowerCase u)"
    by (simp add: minecraftUser_key_def)
  with Cons show ?case by (simp add: link_store_ok_def)
qed

lemma link_record_truthy: "is_link_record v \<Longrightarrow> truthy v"
  by (cases v) (simp_all add: is_link_record_def js_get_def)

lemma link_store_lookup:
  "link_store_ok data \<Longrightarrow> map_of data k = Some v \<Longrightarrow> is_link_record v"
  by (induction data) (auto simp: link_store_ok_def split: if_splits)


lemma js_truthy_str: "js_truthy (str t) = (t \<noteq> [])"
  by (simp add: js_truthy_def)

lemma linkMember_from_new:
  assumes "map_of data discordId = None"
    and "usernameTaken (toLowerCase mcName) (map snd data) = Inr False"
  shows "linkMember_from s1 data (str discordId) (str mcName) =
     (Inr (JObj [(''success'', JBool True), (''discordId'', JStr discordId),
                 (''minecraftUser'', JStr mcName)]),
      s1\<lparr>linking_json := Some (Doc (data @
         [(discordId, JObj [(''discordId'', JStr discordId),
                            (''minecraftUser'', JStr mcName)])]))\<rparr>)"
  using assms
  by (simp add: linkMember_from_def Let_def to_key_def js_truthy_def js_field_def
      update_absent saveData_def writeFileSync_def del: AList.update.simps)

text \<open>
  C2, as stated, fails when \<open>mcName\<close> is empty: identity 100 has a link record, yet
  \<open>linkMember("100", "")\<close> fails with \<open>no_mcname_provided\<close>, not \<open>already_linked\<close>; and
  for identity 200, which has no record, the same call adds none although neither
  \<open>already_linked\<close> nor \<open>username_used\<close> applies.
\<close>

theorem linkMember_empty_name_counterexample:
  "map_of (fst (ensureDataFile (linking_json linked))) ''100'' \<noteq> None \<and>
   fst (linkMember linked (str ''100'') (str [])) = Inr (failure ''no_mcname_provided'' []) \<and>
   map_of (fst (ensureDataFile (linking_json linked))) ''200'' = None \<and>
   \<not> username_linked [] (fst (ensureDataFile (linking_json linked))) \<and>
   linkMember linked (str ''200'') (str []) = (Inr (failure ''no_mcname_provided'' []), linked)"
  by code_simp

lemma linkMember_cases:
  assumes "doc_of (linking_json s) = data" and "link_store_ok data"
    and "discordId \<noteq> []" and "mcName \<noteq> []"
  shows "linkMember s (str discordId) (str mcName) =
     (case map_of data discordId of
        Some existing \<Rightarrow>
          (Inr (failure ''already_linked''
             [(''details'', JObj ([(''discordId'', JStr discordId)] @
                 js_field ''minecraftUser'' (js_get (Some existing) ''minecraftUser'')))]), s)
      | None \<Rightarrow>
          if username_linked mcName data
          then (Inr (failure ''username_used''
                  [(''details'', JObj [(''minecraftUser'', JStr mcName)])]), s)
          else (Inr (JObj [(''success'', JBool True), (''discordId'', JStr discordId),
                           (''minecraftUser'', JStr mcName)]),
                s\<lparr>linking_json := Some (Doc (data @
                   [(discordId, JObj [(''discordId'', JStr discordId),
                                      (''minecraftUser'', JStr mcName)])]))\<rparr>))"
proof -
  let ?lf = "snd (ensureDataFile (linking_json s))"
  let ?s1 = "s\<lparr>linking_json := ?lf\<rparr>"
  have data: "fst (ensureDataFile (linking_json s)) = data"
    by (simp only: fst_ensureDataFile assms(1))
  have lm: "linkMember s (str discordId) (str mcName) =
              linkMember_from ?s1 data (str discordId) (str mcName)"
    using assms(3,4) by (simp add: linkMember_def split_def Let_def data js_truthy_str)
  have same: "?s1 = s" if "data \<noteq> []"
    using that ensureDataFile_nonempty[of "linking_json s"] data by simp
  have taken: "usernameTaken (toLowerCase mcName) (map snd data) =
                 Inr (username_linked mcName data)"
    unfolding username_linked_def by (rule usernameTaken_ok[OF assms(2)])
  show ?thesis
  proof (cases "map_of data discordId")
    case (Some existing)
    then have ne: "data \<noteq> []" by auto
    have "truthy existing"
      by (rule link_record_truthy[OF link_store_lookup[OF assms(2) Some]])
    with Some show ?thesis
      by (simp add: lm linkMember_from_def Let_def to_key_def js_truthy_def js_field_def
          same[OF ne])
  next
    case None
    show ?thesis
    proof (cases "username_linked mcName data")
      case True
      then have ne: "data \<noteq> []" by (auto simp: username_linked_def)
      from None True show ?thesis
        by (simp add: lm linkMember_from_def Let_def to_key_def js_truthy_def taken same[OF ne])
    next
      case False
      with taken have t: "usernameTaken (toLowerCase mcName) (map snd data) = Inr False"
        by simp
      from None False show ?thesis
        by (simp add: lm linkMember_from_new[OF None t])
    qed
  qed
qed

lemma map_of_snoc:
  "map_of ps k = None \<Longrightarrow> map_of (ps @ [(k, v)]) = (map_of ps)(k \<mapsto> v)"
  by (rule ext) (simp add: map_add_def split: option.splits)

text \<open>
  C2, amended. For a non-empty \<open>discordId\<close> that is not the name of a member of
  \<open>Object.prototype\<close> and a non-empty ASCII \<open>mcName\<close>, on a link store whose entries
  are link records: \<open>linkMember\<close> fails with \<open>already_linked\<close>, carrying the existing
  Minecraft username, when \<open>discordId\<close> has a record; failing that, it fails with
  \<open>username_used\<close> when the username of some record equals \<open>mcName\<close> up to letter
  case; both failures leave every file as it was. Otherwise it succeeds, changes
  \<open>linking.json\<close> only, and adds exactly one record there, keyed by \<open>discordId\<close>, that
  stores \<open>mcName\<close> as supplied; every other record is kept.
\<close>

theorem linkMember_outcomes:
  assumes "doc_of (linking_json s) = data" and "link_store_ok data"
    and "discordId \<noteq> []" and "\<not> inherited discordId"
    and "mcName \<noteq> []" and "ascii_string mcName"
  shows
  "(map_of data discordId = Some (JObj r) \<and> map_of r ''minecraftUser'' = Some (JStr u) \<longrightarrow>
      linkMember s (str discordId) (str mcName) =
        (Inr (JObj [(''success'', JBool False), (''reason'', JStr ''already_linked''),
                    (''details'', JObj [(''discordId'', JStr discordId),
                                        (''minecraftUser'', JStr u)])]), s)) \<and>
   (map_of data discordId = None \<and> username_linked mcName data \<longrightarrow>
      linkMember s (str discordId) (str mcName) =
        (Inr (JObj [(''success'', JBool False), (''reason'', JStr ''username_used''),
                    (''details'', JObj [(''minecraftUser'', JStr mcName)])]), s)) \<and>
   (map_of data discordId = None \<and> \<not> username_linked mcName data \<longrightarrow>
      fst (linkMember s (str discordId) (str mcName)) =
        Inr (JObj [(''success'', JBool True), (''discordId'', JStr discordId),
                   (''minecraftUser'', JStr mcName)]) \<and>
      applicants_json (snd (linkMember s (str discordId) (str mcName))) = applicants_json s \<and>
      members_json (snd (linkMember s (str discordId) (str mcName))) = members_json s \<and>
      clans_json (snd (linkMember s (str discordId) (str mcName))) = clans_json s \<and>
      cache_json (snd (linkMember s (str discordId) (str mcName))) = cache_json s \<and>
      map_of (doc_of (linking_json (snd (linkMember s (str discordId) (str mcName))))) =
        (map_of data)(discordId \<mapsto>
           JObj [(''discordId'', JStr discordId), (''minecraftUser'', JStr mcName)]) \<and>
      length (doc_of (linking_json (snd (linkMember s (str discordId) (str mcName))))) =
        length data + 1)"
proof -
  note c = linkMember_cases[OF assms(1,2,3,5)]
  have a: "map_of data discordId = Some (JObj r) \<and> map_of r ''minecraftUser'' = Some (JStr u) \<longrightarrow>
      linkMember s (str discordId) (str mcName) =
        (Inr (JObj [(''success'', JBool False), (''reason'', JStr ''already_linked''),
                    (''details'', JObj [(''discordId'', JStr discordId),
                                        (''minecraftUser'', JStr u)])]), s)"
    by (simp add: c failure_def js_get_obj js_field_def)
  have b: "map_of data discordId = None \<and> username_linked mcName data \<longrightarrow>
      linkMember s (str discordId) (str mcName) =
        (Inr (JObj [(''success'', JBool False), (''reason'', JStr ''username_used''),
                    (''details'', JObj [(''minecraftUser'', JStr mcName)])]), s)"
    by (simp add: c failure_def)
  have d: "map_of data discordId = None \<and> \<not> username_linked mcName data \<longrightarrow>
      fst (linkMember s (str discordId) (str mcName)) =
        Inr (JObj [(''success'', JBool True), (''discordId'', JStr discordId),
                   (''minecraftUser'', JStr mcName)]) \<and>
      applicants_json (snd (linkMember s (str discordId) (str mcName))) = applicants_json s \<and>
      members_json (snd (linkMember s (str discordId) (str mcName))) = members_json s \<and>
      clans_json (snd (linkMember s (str discordId) (str mcName))) = clans_json s \<and>
      cache_json (snd (linkMember s (str discordId) (str mcName))) = cache_json s \<and>
      map_of (doc_of (linking_json (snd (linkMember s (str discordId) (str mcName))))) =
        (map_of data)(discordId \<mapsto>
           JObj [(''discordId'', JStr discordId), (''minecraftUser'', JStr mcName)]) \<and>
      length (doc_of (linking_json (snd (linkMember s (str discordId) (str mcName))))) =
        length data + 1"
  proof (intro impI)
    assume h: "map_of data discordId = None \<and> \<not> username_linked mcName data"
    then have absent: "map_of data discordId = None" by simp
    from h have eq: "linkMember s (str discordId) (str mcName) =
        (Inr (JObj [(''success'', JBool True), (''discordId'', JStr discordId),
                    (''minecraftUser'', JStr mcName)]),
         s\<lparr>linking_json := Some (Doc (data @
            [(discordId, JObj [(''discordId'', JStr discordId),
                               (''minecraftUser'', JStr mcName)])]))\<rparr>)"
      by (simp add: c)
    show "fst (linkMember s (str discordId) (str mcName)) =
        Inr (JObj [(''success'', JBool True), (''discordId'', JStr discordId),
                   (''minecraftUser'', JStr mcName)]) \<and>
      applicants_json (snd (linkMember s (str discordId) (str mcName))) = applicants_json s \<and>
      members_json (snd (linkMember s (str discordId) (str mcName))) = members_json s \<and>
      clans_json (snd (linkMember s (str discordId) (str mcName))) = clans_json s \<and>
      cache_json (snd (linkMember s (str discordId) (str mcName))) = cache_json s \<and>
      map_of (doc_of (linking_json (snd (linkMember s (str discordId) (str mcName))))) =
        (map_of data)(discordId \<mapsto>
           JObj [(''discordId'', JStr discordId), (''minecraftUser'', JStr mcName)]) \<and>
      length (doc_of (linking_json (snd (linkMember s (str discordId) (str mcName))))) =
        length data + 1"
      by (simp add: eq doc_of_def map_of_snoc[OF absent] del: map_of_append)
  qed
  show ?thesis by (intro conjI) (rule a, rule b, rule d)
qed

theorem linkMember_outcomes_witness:
  "linkMember linked (str ''100'') (str ''Alex'') =
     (Inr (JObj [(''success'', JBool False), (''reason'', JStr ''already_linked''),
                 (''details'', JObj [(''discordId'', JStr ''100''),
                                     (''minecraftUser'', JStr ''Steve'')])]),
      linked) \<and>
   linkMember linked (str ''200'') (str ''sTEVE'') =
     (Inr (JObj [(''success'', JBool False), (''reason'', JStr ''username_used''),
                 (''details'', JObj [(''minecraftUser'', JStr ''sTEVE'')])]),
      linked) \<and>
   fst (linkMember linked (str ''200'') (str ''Alex'')) =
     Inr (JObj [(''success'', JBool True), (''discordId'', JStr ''200''),
                (''minecraftUser'', JStr ''Alex'')]) \<and>
   map_of (doc_of (linking_json (snd (linkMember linked (str ''200'') (str ''Alex''))))) ''200'' =
     Some (JObj [(''discordId'', JStr ''200''), (''minecraftUser'', JStr ''Alex'')]) \<and>
   map_of (doc_of (linking_json (snd (linkMember linked (str ''200'') (str ''Alex''))))) ''100'' =
     Some (JObj [(''discordId'', JStr ''100''), (''minecraftUser'', JStr ''Steve'')]) \<and>
   length (doc_of (linking_json (snd (linkMember linked (str ''200'') (str ''Alex''))))) = 2"
proof -
  let ?steve = "[(''discordId'', JStr ''100''), (''minecraftUser'', JStr ''Steve'')]"
  let ?data = "[(''100'', JObj ?steve)]"
  have d: "doc_of (linking_json linked) = ?data"
    by (simp add: linked_def doc_of_def)
  have ok: "link_store_ok ?data"
    by code_simp
  have used: "username_linked ''sTEVE'' ?data" by code_simp
  have free: "\<not> username_linked ''Alex'' ?data" by code_simp
  have 1: "''100'' \<noteq> []" and 2: "''200'' \<noteq> []" and 3: "''Alex'' \<noteq> []"
    and 4: "''sTEVE'' \<noteq> []" by simp_all
  have i1: "\<not> inherited ''100''" and i2: "\<not> inherited ''200''"
    by (simp_all add: inherited_def)
  have a3: "ascii_string ''Alex''" and a4: "ascii_string ''sTEVE''"
    by code_simp+
  have h1: "map_of ?data ''100'' = Some (JObj ?steve) \<and>
            map_of ?steve ''minecraftUser'' = Some (JStr ''Steve'')"
    by simp
  have h2: "map_of ?data ''200'' = None \<and> username_linked ''sTEVE'' ?data"
    using used by simp
  have h3: "map_of ?data ''200'' = None \<and> \<not> username_linked ''Alex'' ?data"
    using free by simp
  note a = linkMember_outcomes[OF d ok 1 i1 3 a3, where r = ?steve and u = "''Steve''",
      THEN conjunct1, rule_format, OF h1]
  note b = linkMember_outcomes[OF d ok 2 i2 4 a4, THEN conjunct2, THEN conjunct1,
      rule_format, OF h2]
  note c = linkMember_outcomes[OF d ok 2 i2 3 a3, THEN conjunct2, THEN conjunct2,
      rule_format, OF h3]
  have c1: "fst (linkMember linked (str ''200'') (str ''Alex'')) =
     Inr (JObj [(''success'', JBool True), (''discordId'', JStr ''200''),
                (''minecraftUser'', JStr ''Alex'')])"
    using c by (elim conjE) assumption
  have m: "map_of (doc_of (linking_json (snd (linkMember linked (str ''200'') (str ''Alex''))))) =
        (map_of ?data)(''200'' \<mapsto>
           JObj [(''discordId'', JStr ''200''), (''minecraftUser'', JStr ''Alex'')])"
    using c by (elim conjE) assumption
  have l: "length (doc_of (linking_json (snd (linkMember linked (str ''200'') (str ''Alex''))))) =
        length ?data + 1"
    using c by (elim conjE) assumption
  have c2: "map_of (doc_of (linking_json (snd (linkMember linked (str ''200'') (str ''Alex'')))))
              ''200'' =
     Some (JObj [(''discordId'', JStr ''200''), (''minecraftUser'', JStr ''Alex'')])"
    by (simp only: m fun_upd_same)
  have c3: "map_of (doc_of (linking_json (snd (linkMember linked (str ''200'') (str ''Alex'')))))
              ''100'' =
     Some (JObj [(''discordId'', JStr ''100''), (''minecraftUser'', JStr ''Steve'')])"
    by (simp only: m) simp
  have c4: "length (doc_of (linking_json (snd (linkMember linked (str ''200'') (str ''Alex''))))) = 2"
    using l by simp
  show ?thesis by (intro conjI) (rule a, rule b, rule c1, rule c2, rule c3, rule c4)
qed

lemma usernameTaken_False_keys:
  "usernameTaken key vs = Inr False \<Longrightarrow> v \<in> set vs \<Longrightarrow>
   \<exists>k. minecraftUser_key v = Inr k \<and> k \<noteq> key"
  by (induction vs) (auto split: sum.splits if_splits)

lemma minecraftUser_key_truthy: "minecraftUser_key v = Inr k \<Longrightarrow> truthy v"
  by (cases v) (simp_all add: minecraftUser_key_def js_get_def)

lemma usernameTaken_False_absent:
  assumes "usernameTaken key (map snd data) = Inr False" and "\<not> js_truthy (map_of data k)"
  shows "map_of data k = None"
proof (cases "map_of data k")
  case None
  then show ?thesis .
next
  case (Some v)
  then have "v \<in> set (map snd data)" by (force dest: map_of_SomeD)
  with assms(1) have "truthy v"
    by (blast dest: usernameTaken_False_keys minecraftUser_key_truthy)
  with Some assms(2) show ?thesis by (simp add: js_truthy_def)
qed

lemma find_entry_last:
  "usernameTaken key vs = Inr False \<Longrightarrow> minecraftUser_key v = Inr key \<Longrightarrow>
   find_entry key (vs @ [v]) = Inr (Some v)"
  by (induction vs) (auto split: sum.splits if_splits)

text \<open>What a successful \<open>linkMember\<close> with a non-empty name has done.\<close>

lemma linkMember_success:
  assumes "linkMember s (str discordId) (str name) = (Inr result, s')"
    and "js_get (Some result) ''success'' = Some (JBool True)" and "name \<noteq> []"
  obtains data where "discordId \<noteq> []" and "map_of data discordId = None"
    and "usernameTaken (toLowerCase name) (map snd data) = Inr False"
    and "linking_json s' = Some (Doc (data @
           [(discordId, JObj [(''discordId'', JStr discordId),
                              (''minecraftUser'', JStr name)])]))"
proof -
  let ?data = "fst (ensureDataFile (linking_json s))"
  let ?s1 = "s\<lparr>linking_json := snd (ensureDataFile (linking_json s))\<rparr>"
  have d: "discordId \<noteq> []"
    using assms(1,2)
    by (auto simp: linkMember_def split_def Let_def js_truthy_str failure_def js_get_def)
  with assms(1,3) have lfrom: "linkMember_from ?s1 ?data (str discordId) (str name) =
      (Inr result, s')"
    by (simp add: linkMember_def split_def Let_def js_truthy_str)
  have nt: "\<not> js_truthy (map_of ?data discordId)"
    using lfrom assms(2)
    by (auto simp: linkMember_from_def Let_def to_key_def failure_def js_get_def)
  then have taken: "usernameTaken (toLowerCase name) (map snd ?data) = Inr False"
    using lfrom assms(2)
    by (auto simp: linkMember_from_def Let_def to_key_def failure_def js_get_def
        split: sum.splits if_splits)
  have absent: "map_of ?data discordId = None"
    by (rule usernameTaken_False_absent[OF taken nt])
  have "s' = ?s1\<lparr>linking_json := Some (Doc (?data @
           [(discordId, JObj [(''discordId'', JStr discordId),
                              (''minecraftUser'', JStr name)])]))\<rparr>"
    using lfrom by (simp add: linkMember_from_new[OF absent taken])
  then have "linking_json s' = Some (Doc (?data @
           [(discordId, JObj [(''discordId'', JStr discordId),
                              (''minecraftUser'', JStr name)])]))"
    by simp
  with d absent taken show ?thesis by (rule that)
qed


text \<open>
  C3, as stated, fails when \<open>name\<close> is empty: \<open>linkMember("500", "")\<close> succeeds by
  taking the legacy \<open>minecraftName\<close> of applicant 500, after which the identity
  resolves to \<open>Herobrine\<close>, not to the empty name, and the empty name resolves to no
  identity.
\<close>

theorem link_empty_name_counterexample:
  "fst (linkMember legacy (str ''500'') (str [])) =
     Inr (JObj [(''success'', JBool True), (''discordId'', JStr ''500''),
                (''minecraftUser'', JStr ''Herobrine'')]) \<and>
   fst (getMCFromDiscord (snd (linkMember legacy (str ''500'') (str []))) (str ''500'')) =
     JStr ''Herobrine'' \<and>
   fst (getDiscordFromMC (snd (linkMember legacy (str ''500'') (str []))) (str [])) =
     Inr JNull"
  by code_simp

text \<open>
  C3, amended. For every identity \<open>discordId\<close> and every non-empty username \<open>name\<close>:
  if \<open>linkMember(discordId, name)\<close> succeeds, then in the resulting store
  \<open>getMCFromDiscord(discordId)\<close> returns exactly \<open>name\<close>, and \<open>getDiscordFromMC(t)\<close>
  returns \<open>discordId\<close> for every \<open>t\<close> that equals \<open>name\<close> up to letter case; neither
  lookup changes a file.
\<close>

theorem link_then_resolve:
  assumes "linkMember s (str discordId) (str name) = (Inr result, s')"
    and "js_get (Some result) ''success'' = Some (JBool True)" and "name \<noteq> []"
  shows "getMCFromDiscord s' (str discordId) = (JStr name, s') \<and>
         (\<forall>t. toLowerCase t = toLowerCase name \<longrightarrow>
              getDiscordFromMC s' (str t) = (Inr (JStr discordId), s'))"
proof -
  let ?new = "JObj [(''discordId'', JStr discordId), (''minecraftUser'', JStr name)]"
  obtain data where d: "discordId \<noteq> []" and absent: "map_of data discordId = None"
    and taken: "usernameTaken (toLowerCase name) (map snd data) = Inr False"
    and l: "linking_json s' = Some (Doc (data @ [(discordId, ?new)]))"
    using assms by (rule linkMember_success)
  have e: "ensureDataFile (linking_json s') = (data @ [(discordId, ?new)], linking_json s')"
    by (simp add: l ensureDataFile_cases)
  have same: "s'\<lparr>linking_json := linking_json s'\<rparr> = s'" by simp
  have look: "map_of (data @ [(discordId, ?new)]) discordId = Some ?new"
    using absent by (simp add: map_add_def)
  have val: "js_get (map_of (data @ [(discordId, ?new)]) discordId) ''minecraftUser'' = str name"
    by (simp only: look) (simp add: js_get_def)
  have mc: "getMCFromDiscord s' (str discordId) = (JStr name, s')"
    using assms(3)
    by (simp add: getMCFromDiscord_def e same to_key_def val or_null_truthy
        del: map_of_append)
  have key: "minecraftUser_key ?new = Inr (toLowerCase name)"
    by (simp add: minecraftUser_key_def js_get_def)
  have dc: "getDiscordFromMC s' (str t) = (Inr (JStr discordId), s')"
    if t: "toLowerCase t = toLowerCase name" for t
  proof -
    from t assms(3) have "t \<noteq> []" using toLowerCase_Nil[of t] toLowerCase_Nil[of name] by simp
    moreover have "find_entry (toLowerCase t) (map snd (data @ [(discordId, ?new)])) =
        Inr (Some ?new)"
      using find_entry_last[OF taken key] by (simp add: t)
    ultimately show ?thesis
      using d
      by (simp add: getDiscordFromMC_def js_truthy_str e same js_get_def or_null_truthy
          del: map_append)
  qed
  from mc dc show ?thesis by blast
qed

theorem link_then_resolve_witness:
  "getMCFromDiscord (snd (linkMember linked (str ''200'') (str ''Alex''))) (str ''200'') =
     (JStr ''Alex'', snd (linkMember linked (str ''200'') (str ''Alex''))) \<and>
   getDiscordFromMC (snd (linkMember linked (str ''200'') (str ''Alex''))) (str ''aLEX'') =
     (Inr (JStr ''200''), snd (linkMember linked (str ''200'') (str ''Alex'')))"
proof -
  let ?result = "JObj [(''success'', JBool True), (''discordId'', JStr ''200''),
                       (''minecraftUser'', JStr ''Alex'')]"
  have 1: "linkMember linked (str ''200'') (str ''Alex'') =
             (Inr ?result, snd (linkMember linked (str ''200'') (str ''Alex'')))"
    by code_simp
  have 2: "js_get (Some ?result) ''success'' = Some (JBool True)"
    by (simp add: js_get_def)
  have 3: "''Alex'' \<noteq> []" by simp
  have 4: "toLowerCase ''aLEX'' = toLowerCase ''Alex''" by code_simp
  note t = link_then_resolve[OF 1 2 3]
  from t have a: "getMCFromDiscord (snd (linkMember linked (str ''200'') (str ''Alex'')))
      (str ''200'') = (JStr ''Alex'', snd (linkMember linked (str ''200'') (str ''Alex'')))"
    by (rule conjunct1)
  from t have "toLowerCase ''aLEX'' = toLowerCase ''Alex'' \<longrightarrow>
     getDiscordFromMC (snd (linkMember linked (str ''200'') (str ''Alex''))) (str ''aLEX'') =
     (Inr (JStr ''200''), snd (linkMember linked (str ''200'') (str ''Alex'')))"
    by (rule conjunct2[THEN spec])
  from this 4 have b: "getDiscordFromMC (snd (linkMember linked (str ''200'') (str ''Alex'')))
     (str ''aLEX'') = (Inr (JStr ''200''), snd (linkMember linked (str ''200'') (str ''Alex'')))"
    by (rule mp)
  show ?thesis by (intro conjI) (rule a, rule b)
qed

subsection \<open>Opening and closing an application\<close>

lemma applicantRecord_no_minecraftName:
  "js_get (Some (JObj (applicantRecord now discordId applicantData serverId closeReason
                         accepted closedAt))) ''minecraftName'' = None"
  by (simp add: applicantRecord_def js_get_skip_field Let_def)

lemma cache_set_applicants: "applicants_json (snd (cache_set s k d)) = applicants_json s"
  by (simp add: cache_set_def split: sum.splits)

lemma getApplicant_saved:
  "applicants_json s' =
     applicants_json (snd (saveApplicant now s discordId applicantData serverId closeReason
                             accepted closedAt)) \<Longrightarrow>
   getApplicant s' discordId =
     JObj (applicantRecord now discordId applicantData serverId closeReason accepted closedAt)"
  by (simp add: getApplicant_def saveApplicant_def Let_def saveApplicants_def writeFileSync_def
      loadApplicants_cases update_conv' or_null_truthy del: AList.update.simps)

text \<open>
  Whatever is submitted, the task that a completed Open transition schedules finds no
  \<open>minecraftName\<close> on the record just saved and links nothing.
\<close>

lemma processApplicant_after_open:
  assumes "modalHandler_application now s i = (Inr ApplicationCreated, scheduled, s')"
  shows "scheduled = [str (user_id i)] \<and>
         processApplicant s' (str (user_id i)) =
           (failure ''no_applicant_or_no_mc'' [(''discordId'', JStr (user_id i))], s')"
proof -
  obtain r s1 where g: "getNextNumber s ''application'' = (r, s1)" by force
  from assms g obtain ticketNumber where r: "r = Inr ticketNumber"
    by (cases r) (auto simp: modalHandler_application_def split: if_splits)
  let ?ad = "[(''discordId'', JStr (user_id i)),
              (''discordUser'', JStr (user_tag i)),
              (''minecraftUser'', JStr (minecraft_name i)),
              (''ticketChannel'', JStr (created_channel_id i))] @
             js_field ''ticketNumber'' ticketNumber @
             [(''minecraftVersion'', JStr (minecraft_version i)),
              (''timezone'', JStr (time_zone i)),
              (''previousGroups'', JStr (previous_groups i)),
              (''reason'', JStr (why i)),
              (''server'', JStr (guild_id i)),
              (''accepted'', JBool False),
              (''closeReason'', JNull),
              (''closedAt'', JNull)]"
  let ?saved = "saveApplicant now s1 (str (user_id i)) ?ad (Some JNull) (Some JNull)
                  (Some (JBool False)) (Some JNull)"
  let ?session = "JObj ([(''type'', JStr ''application''),
                         (''openerId'', JStr (user_id i)),
                         (''openerTag'', JStr (user_tag i))] @
                        js_field ''ticketNumber'' ticketNumber @
                        [(''openedAt'', JStr now)])"
  from assms g r have sch: "scheduled = [str (user_id i)]"
    and s': "s' = snd (cache_set (snd ?saved) (created_channel_id i) ?session)"
    by (auto simp: modalHandler_application_def split_def Let_def
        split: if_splits sum.splits prod.splits)
  have "applicants_json s' = applicants_json (snd ?saved)"
    by (simp add: s' cache_set_applicants)
  then have "getApplicant s' (str (user_id i)) =
      JObj (applicantRecord now (str (user_id i)) ?ad (Some JNull) (Some JNull)
              (Some (JBool False)) (Some JNull))"
    by (rule getApplicant_saved)
  then have "processApplicant s' (str (user_id i)) =
           (failure ''no_applicant_or_no_mc'' [(''discordId'', JStr (user_id i))], s')"
    by (simp add: processApplicant_def applicantRecord_no_minecraftName js_truthy_def
        js_field_def)
  with sch show ?thesis by simp
qed

text \<open>
  C1 (the code breaks it). The Open transition stores the submitted name under
  \<open>minecraftUser\<close>; the deferred \<open>processApplicant\<close> reads \<open>minecraftName\<close>, which
  \<open>saveApplicant\<close> never writes. So after applicant 100 submits \<open>Steve\<close>, the task
  scheduled for 100 returns the failure object \<open>no_applicant_or_no_mc\<close> without
  calling \<open>linkMember\<close>: no file changes and the identity stays unlinked. That the
  failure is returned, not thrown, holds.
\<close>

theorem autolink_after_open_attempts_nothing:
  "fst opened = Inr ApplicationCreated \<and>
   fst (snd opened) = [str ''100''] \<and>
   js_get (Some (getApplicant (snd (snd opened)) (str ''100''))) ''minecraftUser'' = str ''Steve'' \<and>
   js_get (Some (getApplicant (snd (snd opened)) (str ''100''))) ''minecraftName'' = None \<and>
   processApplicant (snd (snd opened)) (str ''100'') =
     (failure ''no_applicant_or_no_mc'' [(''discordId'', JStr ''100'')], snd (snd opened)) \<and>
   fst (getMCFromDiscord (snd (processApplicant (snd (snd opened)) (str ''100''))) (str ''100'')) =
     JNull"
  by code_simp

text \<open>
  Whoever closes a ticket whose applicant has a record, the record's \<open>discordUser\<close>
  becomes the closer's tag.
\<close>

lemma close_sets_discordUser:
  assumes "channel_found i" and "cache_json s = Some (Doc cache)"
    and "map_of cache (ticket_channel i) = Some (JObj session)"
    and "map_of session ''openerId'' = Some (JStr openerId)"
    and "truthy (getApplicant s (str openerId))" and "closer_tag i \<noteq> []"
  shows "js_get (Some (getApplicant (snd (modalHandler_close_reason now s i)) (str openerId)))
           ''discordUser'' = str (closer_tag i)"
proof -
  let ?applicantData = "getApplicant s (str openerId)"
  let ?mcUser = "or_else (js_or (js_get (Some ?applicantData) ''minecraftUser'')
                                (js_get (Some ?applicantData) ''minecraftName'')) (JStr [])"
  let ?ad = "js_assign ''minecraftUser'' (Some ?mcUser)
               (js_assign ''discordUser'' (str (closer_tag i))
                 (js_assign ''discordId'' (str openerId) (spread ?applicantData)))"
  let ?accepted = "Some (nullish (js_get (Some ?applicantData) ''accepted'') (JBool False))"
  let ?saved = "saveApplicant now s (str openerId) ?ad (str (closer_guild_id i))
                  (str (close_reason i)) ?accepted (str now)"
  have get: "cache_get s (ticket_channel i) = (Inr (JObj session), s)"
    using assms(2,3)
    by (simp add: cache_get_def readCache_def readFileSync_def JSON_parse_def or_null_truthy)
  have "snd (modalHandler_close_reason now s i) = snd ?saved"
    using assms(1,4,5) by (simp add: modalHandler_close_reason_def get js_get_def Let_def)
  then have rec: "getApplicant (snd (modalHandler_close_reason now s i)) (str openerId) =
      JObj (applicantRecord now (str openerId) ?ad (str (closer_guild_id i))
              (str (close_reason i)) ?accepted (str now))"
    by (simp add: getApplicant_saved)
  have "map_of ?ad ''discordUser'' = str (closer_tag i)"
    by (simp add: js_assign_def update_conv' del: AList.update.simps)
  then show ?thesis
    using assms(6)
    by (simp add: rec applicantRecord_def js_get_skip_field Let_def js_or_def js_truthy_def
        or_null_truthy)
qed

text \<open>
  C5 (the code breaks it). The Close transition passes \<open>interaction.user.tag\<close>, the tag
  of whoever submits the close reason, as \<open>discordUser\<close>. When a staff member closes
  the ticket of applicant 100, the record's \<open>discordUser\<close> changes from the
  applicant's tag to the staff member's; \<open>closeReason\<close> and \<open>closedAt\<close> change as
  intended and the other fields keep their values.
\<close>

theorem close_overwrites_discordUser:
  "getApplicant (snd (snd opened)) (str ''100'') =
     JObj [(''discordId'', JStr ''100''), (''discordUser'', JStr ''steve#0001''),
           (''minecraftUser'', JStr ''Steve''), (''minecraftUserKey'', JStr ''steve''),
           (''minecraftVersion'', JStr ''Java''), (''timezone'', JStr ''GMT''),
           (''previousGroups'', JStr ''none''), (''reason'', JStr ''friends''),
           (''openedAt'', JStr ''2025-03-01T09:00:00.000Z''), (''server'', JStr ''7''),
           (''accepted'', JBool False), (''closeReason'', JNull), (''closedAt'', JNull)] \<and>
   fst closed = Inr TicketClosed \<and>
   getApplicant (snd closed) (str ''100'') =
     JObj [(''discordId'', JStr ''100''), (''discordUser'', JStr ''mod#9999''),
           (''minecraftUser'', JStr ''Steve''), (''minecraftUserKey'', JStr ''steve''),
           (''minecraftVersion'', JStr ''Java''), (''timezone'', JStr ''GMT''),
           (''previousGroups'', JStr ''none''), (''reason'', JStr ''friends''),
           (''openedAt'', JStr ''2025-03-01T09:00:00.000Z''), (''server'', JStr ''7''),
           (''accepted'', JBool False), (''closeReason'', JStr ''inactive''),
           (''closedAt'', JStr ''2025-03-05T18:30:00.000Z'')]"
  by code_simp

end
